theory Spec2Isabelle
  imports Complex_Main "HOL-Library.Sublist" "HOL-Library.Log_Nat"
begin

section \<open>JavaScript strings and the regular expressions of utils.js\<close>

text \<open>
  A JavaScript string is modelled as a \<open>char list\<close>. The character classes of the
  regular expressions are the ASCII ones of the source: \<open>\d\<close> is \<open>[0-9]\<close> and
  \<open>\w\<close> is \<open>[A-Za-z0-9_]\<close>; every other character (also a non-ASCII one) is a
  non-word character, as in a JavaScript regular expression without the \<open>u\<close> flag.
\<close>

definition isDigit :: "char \<Rightarrow> bool" where
  "isDigit c = (48 \<le> (of_char c :: nat) \<and> (of_char c :: nat) \<le> 57)"

definition isUpper :: "char \<Rightarrow> bool" where
  "isUpper c = (65 \<le> (of_char c :: nat) \<and> (of_char c :: nat) \<le> 90)"

definition isLower :: "char \<Rightarrow> bool" where
  "isLower c = (97 \<le> (of_char c :: nat) \<and> (of_char c :: nat) \<le> 122)"

definition isWord :: "char \<Rightarrow> bool" where
  "isWord c = (isDigit c \<or> isUpper c \<or> isLower c \<or> c = CHR ''_'')"

text \<open>The class \<open>[\w\.-]\<close> of the email pattern.\<close>

definition isEmailChar :: "char \<Rightarrow> bool" where
  "isEmailChar c = (isWord c \<or> c = CHR ''.'' \<or> c = CHR ''-'')"

definition isAt :: "char \<Rightarrow> bool" where
  "isAt c = (c = CHR ''@'')"

definition isDot :: "char \<Rightarrow> bool" where
  "isDot c = (c = CHR ''.'')"

definition isHyphen :: "char \<Rightarrow> bool" where
  "isHyphen c = (c = CHR ''-'')"

text \<open>
  \<open>String.prototype.toLowerCase\<close> on the ASCII letters; other characters are left
  as they are.
\<close>

definition toLowerChar :: "char \<Rightarrow> char" where
  "toLowerChar c =
     (case map_of (zip ''ABCDEFGHIJKLMNOPQRSTUVWXYZ'' ''abcdefghijklmnopqrstuvwxyz'') c of
        Some l \<Rightarrow> l
      | None \<Rightarrow> c)"

definition toLowerCase :: "string \<Rightarrow> string" where
  "toLowerCase s = map toLowerChar s"

text \<open>
  \<open>String.prototype.includes\<close> (named includesStr here): the keyword occurs as
  a contiguous substring at some position.
\<close>

fun includesStr :: "string \<Rightarrow> string \<Rightarrow> bool" where
  "includesStr [] k = (k = [])"
| "includesStr (c # cs) k = (if prefix k (c # cs) then True else includesStr cs k)"

text \<open>\<open>Array.prototype.join\<close> on strings.\<close>

fun join :: "string \<Rightarrow> string list \<Rightarrow> string" where
  "join sep [] = []"
| "join sep [x] = x"
| "join sep (x # y # ys) = x @ sep @ join sep (y # ys)"

subsection \<open>A backtracking matcher for the patterns used\<close>

text \<open>
  Every pattern of utils.js is a sequence of items: the assertion \<open>\b\<close>, a class
  repeated a fixed number of times (\<open>\d{12}\<close>, a literal character), or a class under
  the greedy \<open>+\<close>. \<open>rmatch r prev s\<close> matches the items \<open>r\<close> at the start of
  \<open>s\<close>, where \<open>prev\<close> says whether the character before \<open>s\<close> is a word
  character (False at the start of the text), and returns the length of the match.
  A greedy \<open>+\<close> first takes the longest run and gives characters back one at a time
  while the rest of the pattern fails, as the backtracking of the JavaScript engine does.
\<close>

datatype item = WordB | Rep "char \<Rightarrow> bool" nat | Plus "char \<Rightarrow> bool"

function rmatch :: "item list \<Rightarrow> bool \<Rightarrow> string \<Rightarrow> nat option"
  and rplus :: "item list \<Rightarrow> nat \<Rightarrow> string \<Rightarrow> nat option" where
  "rmatch [] prev s = Some 0"
| "rmatch (WordB # r) prev s =
     (if prev = (case s of [] \<Rightarrow> False | c # _ \<Rightarrow> isWord c) then None else rmatch r prev s)"
| "rmatch (Rep p n # r) prev s =
     (if n \<le> length s \<and> list_all p (take n s)
      then map_option (\<lambda>m. n + m)
             (rmatch r (if n = 0 then prev else isWord (s ! (n - 1))) (drop n s))
      else None)"
| "rmatch (Plus p # r) prev s = rplus r (length (takeWhile p s)) s"
| "rplus r 0 s = None"
| "rplus r (Suc j) s =
     (case rmatch r (isWord (s ! j)) (drop (Suc j) s) of
        Some m \<Rightarrow> Some (Suc j + m)
      | None \<Rightarrow> rplus r j s)"
  by pat_completeness auto
termination
  by (relation "measures
        [\<lambda>x. case x of Inl (r, _, _) \<Rightarrow> 2 * length r | Inr (r, _, _) \<Rightarrow> 2 * length r + 1,
         \<lambda>x. case x of Inl _ \<Rightarrow> 0 | Inr (_, j, _) \<Rightarrow> j]") auto

text \<open>
  \<open>RegExp.prototype.test\<close> without the \<open>g\<close> flag: is there a match at some position,
  scanning from the left.
\<close>

fun rtest :: "item list \<Rightarrow> bool \<Rightarrow> string \<Rightarrow> bool" where
  "rtest r prev [] = (case rmatch r prev [] of Some _ \<Rightarrow> True | None \<Rightarrow> False)"
| "rtest r prev (c # cs) =
     (case rmatch r prev (c # cs) of Some _ \<Rightarrow> True | None \<Rightarrow> rtest r (isWord c) cs)"

text \<open>
  \<open>String.prototype.replace\<close> with a \<open>g\<close> pattern and a fixed replacement: the text
  is scanned from the left, every match is replaced, and the scan goes on after the match.
  The argument \<open>skip\<close> counts the characters of the current match still to be passed
  over. An empty match (none of the patterns below has one) inserts the replacement and
  copies the next character.
\<close>

fun replaceAll :: "item list \<Rightarrow> string \<Rightarrow> bool \<Rightarrow> nat \<Rightarrow> string \<Rightarrow> string" where
  "replaceAll r rep prev skip [] =
     (if 0 < skip then []
      else (case rmatch r prev [] of Some _ \<Rightarrow> rep | None \<Rightarrow> []))"
| "replaceAll r rep prev skip (c # cs) =
     (if 0 < skip then replaceAll r rep (isWord c) (skip - 1) cs
      else
        (case rmatch r prev (c # cs) of
           Some n \<Rightarrow>
             (if n = 0 then rep @ c # replaceAll r rep (isWord c) 0 cs
              else rep @ replaceAll r rep (isWord c) (n - 1) cs)
         | None \<Rightarrow> c # replaceAll r rep (isWord c) 0 cs))"

subsection \<open>The patterns of detectPII and redactPII\<close>

text \<open>\<open>/\b\d{12}\b/\<close>\<close>

definition aadhaarRx :: "item list" where
  "aadhaarRx = [WordB, Rep isDigit 12, WordB]"

text \<open>\<open>/\b[A-Z]{5}\d{4}[A-Z]\b/\<close>\<close>

definition panRx :: "item list" where
  "panRx = [WordB, Rep isUpper 5, Rep isDigit 4, Rep isUpper 1, WordB]"

text \<open>\<open>/\b[\w\.-]+@[\w\.-]+\.\w+\b/\<close>\<close>

definition emailRx :: "item list" where
  "emailRx = [WordB, Plus isEmailChar, Rep isAt 1, Plus isEmailChar, Rep isDot 1, Plus isWord, WordB]"

text \<open>\<open>/\b\d{10}\b/\<close>\<close>

definition phoneRx :: "item list" where
  "phoneRx = [WordB, Rep isDigit 10, WordB]"

text \<open>\<open>/\b\d{3}-\d{2}-\d{4}\b/\<close>\<close>

definition ssnRx :: "item list" where
  "ssnRx = [WordB, Rep isDigit 3, Rep isHyphen 1, Rep isDigit 2, Rep isHyphen 1, Rep isDigit 4, WordB]"

text \<open>utils.js, detectPII: an empty text is not scanned.\<close>

definition detectPII :: "string \<Rightarrow> bool" where
  "detectPII text =
     (if text = [] then False
      else list_ex (\<lambda>pattern. rtest pattern False text)
             [aadhaarRx, panRx, emailRx, phoneRx, ssnRx])"

text \<open>utils.js, redactPII: three replacement passes, in the order of the source.\<close>

definition redactPII :: "string \<Rightarrow> string" where
  "redactPII text =
     (if text = [] then text
      else
        let redacted = replaceAll aadhaarRx ''XXXXXXXXXXXX'' False 0 text;
            redacted = replaceAll emailRx ''email@redacted.com'' False 0 redacted;
            redacted = replaceAll phoneRx ''XXXXXXXXXX'' False 0 redacted
        in redacted)"

subsection \<open>JavaScript numbers\<close>

text \<open>
  A JavaScript number is an IEEE 754 binary64 value: a finite number, one of the two
  infinities, or NaN. A finite value is kept as the real number it denotes; the sign of
  zero is not kept. Every arithmetic operation computes the exact result and rounds it
  to the nearest representable number, ties to the even significand (\<open>roundD\<close>):
  \<open>expo x\<close> is the binary exponent of \<open>x\<close>, at least \<open>-1022\<close> (below it the
  numbers are subnormal), the significand has 53 bits, so that neighbouring
  representable numbers are \<open>2 ^ (expo x - 52)\<close> apart, and a rounded magnitude of
  \<open>2 ^ 1024\<close> or more overflows to an infinity.
\<close>

datatype double = Fin real | PInf | NInf | NaN

definition pow2i :: "int \<Rightarrow> real" where
  "pow2i k = (if 0 \<le> k then 2 ^ nat k else 1 / 2 ^ nat (- k))"

definition roundHalfEven :: "real \<Rightarrow> int" where
  "roundHalfEven z =
     (let f = \<lfloor>z\<rfloor>; d = z - of_int f
      in if d < 1 / 2 then f else if 1 / 2 < d then f + 1 else if even f then f else f + 1)"

definition expo :: "real \<Rightarrow> int" where
  "expo x =
     (if 1 \<le> \<bar>x\<bar> then bitlen \<lfloor>\<bar>x\<bar>\<rfloor> - 1
      else max (- 1022) (bitlen \<lfloor>\<bar>x\<bar> * 2 ^ 1074\<rfloor> - 1075))"

definition roundD :: "real \<Rightarrow> double" where
  "roundD x =
     (if x = 0 then Fin 0
      else
        (let ulp = pow2i (expo x - 52);
             r = of_int (roundHalfEven (x / ulp)) * ulp
         in if 2 ^ 1024 \<le> \<bar>r\<bar> then (if 0 < x then PInf else NInf) else Fin r))"

fun mulD :: "double \<Rightarrow> double \<Rightarrow> double" where
  "mulD NaN b = NaN"
| "mulD a NaN = NaN"
| "mulD (Fin a) (Fin b) = roundD (a * b)"
| "mulD (Fin a) PInf = (if a = 0 then NaN else if 0 < a then PInf else NInf)"
| "mulD (Fin a) NInf = (if a = 0 then NaN else if 0 < a then NInf else PInf)"
| "mulD PInf (Fin b) = (if b = 0 then NaN else if 0 < b then PInf else NInf)"
| "mulD NInf (Fin b) = (if b = 0 then NaN else if 0 < b then NInf else PInf)"
| "mulD PInf PInf = PInf"
| "mulD PInf NInf = NInf"
| "mulD NInf PInf = NInf"
| "mulD NInf NInf = PInf"

fun addD :: "double \<Rightarrow> double \<Rightarrow> double" where
  "addD NaN b = NaN"
| "addD a NaN = NaN"
| "addD (Fin a) (Fin b) = roundD (a + b)"
| "addD (Fin a) PInf = PInf"
| "addD (Fin a) NInf = NInf"
| "addD PInf (Fin b) = PInf"
| "addD NInf (Fin b) = NInf"
| "addD PInf PInf = PInf"
| "addD NInf NInf = NInf"
| "addD PInf NInf = NaN"
| "addD NInf PInf = NaN"

fun negD :: "double \<Rightarrow> double" where
  "negD (Fin a) = Fin (- a)"
| "negD PInf = NInf"
| "negD NInf = PInf"
| "negD NaN = NaN"

definition subD :: "double \<Rightarrow> double \<Rightarrow> double" where
  "subD a b = addD a (negD b)"

fun minD :: "double \<Rightarrow> double \<Rightarrow> double" where
  "minD NaN b = NaN"
| "minD a NaN = NaN"
| "minD NInf b = NInf"
| "minD a NInf = NInf"
| "minD PInf b = b"
| "minD a PInf = a"
| "minD (Fin a) (Fin b) = Fin (min a b)"

fun floorD :: "double \<Rightarrow> double" where
  "floorD (Fin a) = Fin (of_int \<lfloor>a\<rfloor>)"
| "floorD a = a"

text \<open>\<open>Math.pow(2, n)\<close> for a whole number \<open>n\<close> that is not negative.\<close>

definition pow2D :: "nat \<Rightarrow> double" where
  "pow2D n = (if n \<le> 1023 then Fin (2 ^ n) else PInf)"

subsection \<open>calculateBackoff\<close>

text \<open>
  utils.js, calculateBackoff. The outcome of \<open>Math.random()\<close>, a number in
  \<open>[0, 1)\<close>, is the argument \<open>rnd\<close>; the attempt is a whole number that is
  not negative.
\<close>

definition calculateBackoff :: "nat \<Rightarrow> double \<Rightarrow> double \<Rightarrow> double \<Rightarrow> double" where
  "calculateBackoff attempt baseDelay maxDelay rnd =
     (let exponentialDelay = minD (mulD baseDelay (pow2D attempt)) maxDelay;
          jitter = mulD (mulD exponentialDelay (Fin (1 / 4))) (subD (mulD rnd (Fin 2)) (Fin 1))
      in floorD (addD exponentialDelay jitter))"

section \<open>Values shared by the components\<close>

text \<open>
  An optional field of a JavaScript object is an \<open>option\<close>. \<open>a || b\<close> yields \<open>b\<close>
  when \<open>a\<close> is falsy: absent, or the empty string.
\<close>

definition truthyStr :: "string option \<Rightarrow> bool" where
  "truthyStr a = (case a of None \<Rightarrow> False | Some s \<Rightarrow> s \<noteq> [])"

definition orOpt :: "string option \<Rightarrow> string option \<Rightarrow> string option" where
  "orOpt a b = (if truthyStr a then a else b)"

definition orStr :: "string option \<Rightarrow> string \<Rightarrow> string" where
  "orStr a d = (case a of None \<Rightarrow> d | Some s \<Rightarrow> (if s = [] then d else s))"

text \<open>An error value that is thrown: its kind and its \<open>message\<close>.\<close>

datatype jsError = ReferenceError string | TypeError string | RemoteError string

fun message :: "jsError \<Rightarrow> string" where
  "message (ReferenceError m) = m"
| "message (TypeError m) = m"
| "message (RemoteError m) = m"

text \<open>
  A tag of a dataset is a string or an object with an optional \<open>name\<close>; the
  \<open>format\<close> of a resource is absent, a string, or some other truthy value (on which
  \<open>toLowerCase\<close> is not a function).
\<close>

datatype tag = TagStr string | TagObj "string option"

datatype formatField = FormatAbsent | FormatText string | FormatOther

record organization =
  org_title :: "string option"
  org_name :: "string option"

record resource =
  res_id :: "string option"
  res_name :: "string option"
  res_description :: "string option"
  res_format :: formatField
  res_url :: "string option"
  res_size :: "nat option"
  res_created :: "string option"
  res_last_modified :: "string option"
  res_mimetype :: "string option"

record dataset =
  ds_id :: "string option"
  ds_name :: "string option"
  ds_title :: "string option"
  ds_notes :: "string option"
  ds_description :: "string option"
  ds_organization :: "organization option"
  ds_sector :: "string option"
  ds_groups :: "string option list option"
  ds_tags :: "tag list option"
  ds_license :: "string option"
  ds_license_title :: "string option"
  ds_license_id :: "string option"
  ds_metadata_created :: "string option"
  ds_metadata_modified :: "string option"
  ds_num_resources :: "nat option"
  ds_resources :: "resource list option"
  ds_url :: "string option"
  ds_maintainer :: "string option"
  ds_author :: "string option"
  ds_score :: "real option"

section \<open>Governance layer\<close>

record compliance =
  licenseCheck :: bool
  restrictionCheck :: bool
  piiCheck :: bool

record validationResult =
  allowed :: bool
  warnings :: "string list"
  errors :: "string list"
  compliance :: compliance

record logEntry =
  le_timestamp :: string
  le_datasetId :: "string option"
  le_datasetTitle :: "string option"
  le_action :: string
  le_allowed :: bool
  le_warnings :: "string list"
  le_errors :: "string list"
  le_compliance :: compliance

record governance =
  respectLicenses :: bool
  blockRestrictedData :: bool
  enableAuditLog :: bool
  piiDetection :: bool
  auditLog :: "logEntry list"
  blockedDatasets :: "string option set"
  licenseWarnings :: "string option set"

definition restrictedKeywords :: "string list" where
  "restrictedKeywords =
     [''internal-use'', ''restricted'', ''confidential'', ''classified'', ''private'',
      ''sensitive'', ''secret'']"

text \<open>
  \<open>t.name || t\<close>, as \<open>join\<close> writes it: an object without a usable name is written
  \<open>[object Object]\<close>.
\<close>

fun tagText :: "tag \<Rightarrow> string" where
  "tagText (TagStr s) = s"
| "tagText (TagObj n) = orStr n ''[object Object]''"

definition datasetText :: "dataset \<Rightarrow> string" where
  "datasetText d =
     toLowerCase (join '' ''
       [orStr (ds_title d) [],
        orStr (orOpt (ds_description d) (ds_notes d)) [],
        orStr (map_option (\<lambda>ts. join '' '' (map tagText ts)) (ds_tags d)) []])"

datatype restrictionResult =
  Restricted (rc_reason: string) (rc_keyword: string)
| Unrestricted (rc_reason: string)

definition restrictionReason :: "string \<Rightarrow> string" where
  "restrictionReason keyword =
     ''Dataset contains restricted content (keyword: '' @ [CHR 0x27] @ keyword @ [CHR 0x27]
       @ ''). Access blocked per governance policy.''"

definition checkRestrictions :: "governance \<Rightarrow> dataset \<Rightarrow> restrictionResult \<times> governance" where
  "checkRestrictions g d =
     (case find (\<lambda>keyword. includesStr (datasetText d) keyword) restrictedKeywords of
        Some foundRestriction \<Rightarrow>
          (Restricted (restrictionReason foundRestriction) foundRestriction,
           g\<lparr>blockedDatasets := insert (orOpt (ds_id d) (ds_name d)) (blockedDatasets g)\<rparr>)
      | None \<Rightarrow> (Unrestricted ''No restrictions found'', g))"

definition openLicenses :: "string list" where
  "openLicenses =
     [''cc-by'', ''cc-by-4.0'', ''creative commons attribution'', ''cc0'', ''public domain'',
      ''odc-by'', ''odbl'', ''open government license'']"

datatype licenseResult =
  Restrictive (lc_warning: string) (lc_license: string)
| Compliant (lc_license: string) (lc_requiresAttribution: bool)

definition checkLicense :: "governance \<Rightarrow> dataset \<Rightarrow> licenseResult \<times> governance" where
  "checkLicense g d =
     (let license = orStr (orOpt (ds_license_title d) (ds_license_id d)) [];
          isOpenLicense = list_ex (\<lambda>ol. includesStr (toLowerCase license) ol) openLicenses;
          g' = g\<lparr>licenseWarnings := insert (orOpt (ds_id d) (ds_name d)) (licenseWarnings g)\<rparr>
      in if license = [] \<or> toLowerCase license = ''not specified''
         then (Restrictive ''No license specified. Use with caution. Attribution recommended.''
                 ''Not specified'', g')
         else if \<not> isOpenLicense
         then (Restrictive (''License '' @ [CHR 0x27] @ license @ [CHR 0x27]
                   @ '' may have restrictions. Review terms before use.'') license, g')
         else (Compliant license (includesStr (toLowerCase license) ''cc-by''), g))"

text \<open>
  logAccess: the entry is appended and the oldest entry is dropped once the log holds more
  than 1000. The time stamp is read from the clock; here it is the argument \<open>now\<close>.
\<close>

definition logAccess :: "governance \<Rightarrow> string \<Rightarrow> dataset \<Rightarrow> validationResult \<Rightarrow> governance" where
  "logAccess g now d v =
     (if enableAuditLog g
      then
        (let logEntry = \<lparr>le_timestamp = now,
                         le_datasetId = orOpt (ds_id d) (ds_name d),
                         le_datasetTitle = ds_title d,
                         le_action = ''ACCESS_ATTEMPT'',
                         le_allowed = allowed v,
                         le_warnings = warnings v,
                         le_errors = errors v,
                         le_compliance = compliance v\<rparr>;
             pushed = auditLog g @ [logEntry]
         in g\<lparr>auditLog := (if 1000 < length pushed then tl pushed else pushed)\<rparr>)
      else g)"

definition validateDatasetAccess ::
  "governance \<Rightarrow> string \<Rightarrow> dataset \<Rightarrow> validationResult \<times> governance" where
  "validateDatasetAccess g now d =
     (let v0 = \<lparr>allowed = True, warnings = [], errors = [],
                compliance = \<lparr>licenseCheck = True, restrictionCheck = True, piiCheck = True\<rparr>\<rparr>;
          (v1, g1) =
            (if blockRestrictedData g
             then (case checkRestrictions g d of
                     (Restricted reason keyword, g') \<Rightarrow>
                       (v0\<lparr>allowed := False, errors := errors v0 @ [reason],
                           compliance := (compliance v0)\<lparr>restrictionCheck := False\<rparr>\<rparr>, g')
                   | (Unrestricted reason, g') \<Rightarrow> (v0, g'))
             else (v0, g));
          (v2, g2) =
            (if respectLicenses g1
             then (case checkLicense g1 d of
                     (Restrictive warning license, g') \<Rightarrow>
                       (v1\<lparr>warnings := warnings v1 @ [warning],
                           compliance := (compliance v1)\<lparr>licenseCheck := False\<rparr>\<rparr>, g')
                   | (Compliant license attribution, g') \<Rightarrow> (v1, g'))
             else (v1, g1));
          g3 = (if enableAuditLog g2 then logAccess g2 now d v2 else g2)
      in (v2, g3))"

text \<open>
  validateURL parses the address with the platform's \<open>URL\<close> class, which is not part
  of the repository: the parser is the argument \<open>parseURL\<close>, giving the protocol and the
  host name, or an error message when the constructor throws.
\<close>

record parsedURL =
  protocol :: string
  hostname :: string
  href :: string

datatype urlValidation = Safe string | Unsafe string

definition validateURL :: "(string \<Rightarrow> string + parsedURL) \<Rightarrow> string \<Rightarrow> urlValidation" where
  "validateURL parseURL url =
     (case parseURL url of
        Inl msg \<Rightarrow> Unsafe (''Invalid URL: '' @ msg)
      | Inr parsed \<Rightarrow>
          if \<not> List.member [''http:'', ''https:''] (protocol parsed)
          then Unsafe (''Unsafe protocol: '' @ protocol parsed @ ''. Only HTTP/HTTPS allowed.'')
          else if list_ex (\<lambda>host. includesStr (hostname parsed) host)
                    [''localhost'', ''127.0.0.1'', ''0.0.0.0'', ''169.254.169.254'']
          then Unsafe ''Cannot access internal/localhost URLs for security reasons.''
          else Safe (href parsed))"

record downloadValidation =
  dv_allowed :: bool
  dv_warnings :: "string list"
  dv_errors :: "string list"

text \<open>
  validateResourceDownload. The size is written into the warning as a decimal numeral by
  the argument \<open>showNat\<close>.
\<close>

definition validateResourceDownload ::
  "(string \<Rightarrow> string + parsedURL) \<Rightarrow> (nat \<Rightarrow> string) \<Rightarrow> resource \<Rightarrow> downloadValidation" where
  "validateResourceDownload parseURL showNat r =
     (let v0 = \<lparr>dv_allowed = True, dv_warnings = [], dv_errors = []\<rparr>;
          v1 = (case res_size r of
                  Some sz \<Rightarrow>
                    if sz \<noteq> 0 \<and> 500 * 1024 * 1024 < sz
                    then v0\<lparr>dv_warnings := dv_warnings v0 @
                           [''Large file size ('' @ showNat sz
                              @ ''). Consider streaming or chunked download.'']\<rparr>
                    else v0
                | None \<Rightarrow> v0)
      in if truthyStr (res_url r)
         then (case validateURL parseURL (orStr (res_url r) []) of
                 Unsafe reason \<Rightarrow> v1\<lparr>dv_allowed := False, dv_errors := dv_errors v1 @ [reason]\<rparr>
               | Safe u \<Rightarrow> v1)
         else v1)"

section \<open>Formatting of dataset descriptors (utils.js)\<close>

text \<open>
  A character of a string is a code unit below 256. The white space of JavaScript
  (\<open>\s\<close> in a regular expression, and what \<open>trim\<close> removes) among these
  is the blank, the tab, the line feed, the vertical tab, the form feed, the carriage
  return and the no-break space U+00A0.
\<close>

definition isSpace :: "char \<Rightarrow> bool" where
  "isSpace c = List.member [CHR 0x20, CHR 0x09, CHR 0x0A, CHR 0x0B, CHR 0x0C, CHR 0x0D, CHR 0xA0] c"

text \<open>\<open>String.prototype.trim\<close>.\<close>

definition trim :: "string \<Rightarrow> string" where
  "trim s = rev (dropWhile isSpace (rev (dropWhile isSpace s)))"

definition truncateText :: "string option \<Rightarrow> nat \<Rightarrow> string option" where
  "truncateText text maxLength =
     (case text of
        None \<Rightarrow> None
      | Some t \<Rightarrow> if t = [] \<or> length t \<le> maxLength then Some t
                  else Some (take maxLength t @ ''...''))"

text \<open>\<open>Array.prototype.toString\<close> on a tag list: the elements, joined by commas.\<close>

fun tagToString :: "tag \<Rightarrow> string" where
  "tagToString (TagStr s) = s"
| "tagToString (TagObj n) = ''[object Object]''"

definition stringScore :: "string option \<Rightarrow> nat \<Rightarrow> nat" where
  "stringScore field weight =
     (case field of
        None \<Rightarrow> 0
      | Some v \<Rightarrow> if v \<noteq> [] \<and> 0 < length (trim v) then weight else 0)"

definition calculateQualityScore :: "dataset \<Rightarrow> nat" where
  "calculateQualityScore d =
     stringScore (ds_title d) 10
     + stringScore (ds_description d) 15
     + (case ds_resources d of None \<Rightarrow> 0 | Some rs \<Rightarrow> if 0 < length rs then 25 else 0)
     + (case ds_organization d of None \<Rightarrow> 0 | Some org \<Rightarrow> 10)
     + (case ds_tags d of
          None \<Rightarrow> 0
        | Some ts \<Rightarrow> if 0 < length (trim (join '','' (map tagToString ts))) then 10 else 0)
     + stringScore (ds_metadata_created d) 5
     + stringScore (ds_metadata_modified d) 5
     + stringScore (ds_license d) 10
     + stringScore (ds_maintainer d) 5
     + stringScore (ds_author d) 5"

record formattedDataset =
  fd_id :: "string option"
  fd_title :: "string option"
  fd_description :: "string option"
  fd_organization :: string
  fd_sector :: string
  fd_tags :: "string option list"
  fd_license :: string
  fd_createdDate :: "string option"
  fd_modifiedDate :: "string option"
  fd_resourceCount :: nat
  fd_url :: string
  fd_qualityScore :: nat

text \<open>A template literal writes an absent value as \<open>undefined\<close>.\<close>

definition templateStr :: "string option \<Rightarrow> string" where
  "templateStr a = (case a of None \<Rightarrow> ''undefined'' | Some s \<Rightarrow> s)"

definition orNat :: "nat option \<Rightarrow> nat \<Rightarrow> nat" where
  "orNat a d = (case a of None \<Rightarrow> d | Some n \<Rightarrow> (if n = 0 then d else n))"

fun tagName :: "tag \<Rightarrow> string option" where
  "tagName (TagStr s) = Some s"
| "tagName (TagObj n) = n"

definition formatDatasetMetadata :: "dataset \<Rightarrow> formattedDataset" where
  "formatDatasetMetadata d =
     \<lparr>fd_id = orOpt (ds_id d) (ds_name d),
      fd_title = ds_title d,
      fd_description = truncateText (orOpt (ds_notes d) (ds_description d)) 500,
      fd_organization =
        (case ds_organization d of
           None \<Rightarrow> ''Unknown''
         | Some org \<Rightarrow> orStr (orOpt (org_title org) (org_name org)) ''Unknown''),
      fd_sector =
        orStr (orOpt (ds_sector d)
                 (case ds_groups d of None \<Rightarrow> None | Some [] \<Rightarrow> None | Some (g # _) \<Rightarrow> g))
          ''General'',
      fd_tags = (case ds_tags d of None \<Rightarrow> [] | Some ts \<Rightarrow> map tagName ts),
      fd_license = orStr (orOpt (ds_license_title d) (ds_license_id d)) ''Not specified'',
      fd_createdDate = ds_metadata_created d,
      fd_modifiedDate = ds_metadata_modified d,
      fd_resourceCount =
        orNat (ds_num_resources d) (case ds_resources d of None \<Rightarrow> 0 | Some rs \<Rightarrow> length rs),
      fd_url = orStr (ds_url d) (''https://data.gov.in/resource/'' @ templateStr (ds_name d)),
      fd_qualityScore = calculateQualityScore d\<rparr>"

section \<open>Search and discovery\<close>

record formattedResource =
  fr_id :: "string option"
  fr_name :: "string option"
  fr_description :: "string option"
  fr_format :: formatField
  fr_url :: "string option"
  fr_size :: "nat option"
  fr_created :: "string option"
  fr_modified :: "string option"
  fr_mimetype :: "string option"

definition formatResources :: "resource list \<Rightarrow> formattedResource list" where
  "formatResources rs =
     map (\<lambda>r. \<lparr>fr_id = res_id r, fr_name = res_name r, fr_description = res_description r,
               fr_format = res_format r, fr_url = res_url r, fr_size = res_size r,
               fr_created = res_created r, fr_modified = res_last_modified r,
               fr_mimetype = res_mimetype r\<rparr>) rs"

text \<open>
  The catalog client is the source of every remote answer. A call of the client takes
  the state of the world \<open>'w\<close> (the remote catalog, the quota, the clock) and gives the
  answer or the thrown error, and the next state.
\<close>

record searchCall =
  sc_query :: string
  sc_rows :: nat
  sc_start :: nat
  sc_fq :: "string option"
  sc_sort :: string
  sc_facet :: bool
  sc_facetFields :: "string list"

record searchResponse =
  sr_count :: "nat option"
  sr_results :: "dataset list option"

type_synonym 'w packageSearch = "searchCall \<Rightarrow> 'w \<Rightarrow> (jsError + searchResponse) \<times> 'w"

type_synonym 'w packageShow = "string \<Rightarrow> 'w \<Rightarrow> (jsError + dataset option) \<times> 'w"

subsection \<open>sanitizeQuery and buildSolrQuery\<close>

text \<open>
  \<open>replace(/\s+/g, ' ')\<close>: every maximal run of white space becomes one blank;
  \<open>inRun\<close> says that the character before was white space.
\<close>

fun collapseSpaces :: "bool \<Rightarrow> string \<Rightarrow> string" where
  "collapseSpaces inRun [] = []"
| "collapseSpaces inRun (c # cs) =
     (if isSpace c
      then (if inRun then collapseSpaces True cs else CHR '' '' # collapseSpaces True cs)
      else c # collapseSpaces False cs)"

definition sanitizeQuery :: "string \<Rightarrow> string" where
  "sanitizeQuery query =
     (if query = [] then []
      else take 500 (collapseSpaces False
             (map (\<lambda>c. if isWord c \<or> isSpace c \<or> c = CHR ''-'' \<or> c = CHR ''.'' then c
                        else CHR '' '')
                (trim query))))"

record filters =
  f_organization :: "string option"
  f_sector :: "string option"
  f_tags :: "string list option"
  f_format :: "string list option"
  f_dateFrom :: "string option"
  f_dateTo :: "string option"

definition quoted :: "string \<Rightarrow> string" where
  "quoted s = [CHR 0x22] @ s @ [CHR 0x22]"

text \<open>
  formatDateForAPI rests on the moment library: it is the argument \<open>formatDate\<close>, which
  gives no string for an invalid date; the template literal then writes \<open>null\<close>.
\<close>

definition dateBound :: "(string \<Rightarrow> string option) \<Rightarrow> string option \<Rightarrow> string" where
  "dateBound formatDate a =
     (if truthyStr a
      then (case formatDate (orStr a []) of None \<Rightarrow> ''null'' | Some s \<Rightarrow> s)
      else ''*'')"

definition buildSolrQuery :: "(string \<Rightarrow> string option) \<Rightarrow> filters \<Rightarrow> string" where
  "buildSolrQuery formatDate f =
     (let conditions =
            (if truthyStr (f_organization f)
             then [''organization:'' @ quoted (orStr (f_organization f) [])] else [])
            @ (if truthyStr (f_sector f)
               then [''sector:'' @ quoted (orStr (f_sector f) [])] else [])
            @ (case f_tags f of
                 None \<Rightarrow> []
               | Some ts \<Rightarrow>
                   if 0 < length ts
                   then [''('' @ join '' OR '' (map (\<lambda>t. ''tags:'' @ quoted t) ts) @ '')'']
                   else [])
            @ (if truthyStr (f_dateFrom f) \<or> truthyStr (f_dateTo f)
               then [''metadata_modified:['' @ dateBound formatDate (f_dateFrom f) @ '' TO ''
                       @ dateBound formatDate (f_dateTo f) @ '']'']
               else [])
      in if 0 < length conditions then join '' AND '' conditions else ''*:*'')"

text \<open>\<open>Object.keys(filters).length > 0\<close>: some field of the filter object is present.\<close>

definition hasKeys :: "filters \<Rightarrow> bool" where
  "hasKeys f =
     (f_organization f \<noteq> None \<or> f_sector f \<noteq> None \<or> f_tags f \<noteq> None \<or> f_format f \<noteq> None
      \<or> f_dateFrom f \<noteq> None \<or> f_dateTo f \<noteq> None)"

subsection \<open>SearchDiscovery.search\<close>

text \<open>\<open>dataset.score || 1.0\<close>: an absent score and the score 0 count as 1.\<close>

definition scoreOf :: "dataset \<Rightarrow> real" where
  "scoreOf d = (case ds_score d of None \<Rightarrow> 1 | Some x \<Rightarrow> (if x = 0 then 1 else x))"

text \<open>
  The pagination loop of search (the \<open>while\<close> statement). An error thrown by the
  client leaves the loop and the function body (it is caught by the \<open>catch\<close> of
  search). The loop need not end: a catalog that keeps answering with full pages whose
  items are all below the threshold keeps it running, so the loop is a partial function
  and not returning is the value \<open>None\<close>. The result holds \<open>results\<close> and
  \<open>totalFound\<close>, the variables declared before the loop; \<open>searchResult\<close> is
  declared with \<open>const\<close> inside the body of the loop and does not outlive an
  iteration.
\<close>

partial_function (option) searchLoop ::
  "'w packageSearch \<Rightarrow> real \<Rightarrow> string \<Rightarrow> string option \<Rightarrow> nat \<Rightarrow> dataset list \<Rightarrow> nat \<Rightarrow> nat \<Rightarrow> 'w
     \<Rightarrow> ((jsError + dataset list \<times> nat) \<times> 'w) option" where
  "searchLoop client relevanceThreshold finalQuery filterQuery maxResults results start totalFound w =
     (if length results < maxResults
      then
        (let rows = min 100 (maxResults - length results) in
         case client \<lparr>sc_query = finalQuery, sc_rows = rows, sc_start = start,
                      sc_fq = filterQuery,
                      sc_sort = ''score desc, metadata_modified desc'',
                      sc_facet = True,
                      sc_facetFields = [''organization'', ''groups'', ''tags'', ''res_format'']\<rparr> w of
           (Inl err, w') \<Rightarrow> Some (Inl err, w')
         | (Inr searchResult, w') \<Rightarrow>
             (let totalFound' = orNat (sr_count searchResult) 0 in
              case sr_results searchResult of
                None \<Rightarrow> Some (Inr (results, totalFound'), w')
              | Some page \<Rightarrow>
                  if length page = 0 then Some (Inr (results, totalFound'), w')
                  else
                    (let relevantResults = filter (\<lambda>d. relevanceThreshold \<le> scoreOf d) page;
                         results' = results @ relevantResults
                     in if length page < rows \<or> totalFound' \<le> length results'
                        then Some (Inr (results', totalFound'), w')
                        else searchLoop client relevanceThreshold finalQuery filterQuery
                               maxResults results' (start + rows) totalFound' w')))
      else Some (Inr (results, totalFound), w))"

record searchItem =
  si_metadata :: formattedDataset
  si_relevanceScore :: real
  si_resources :: "formattedResource list"

record searchOutcome =
  so_success :: bool
  so_error :: "string option"
  so_original :: "string option"
  so_filters :: filters
  so_results :: "searchItem list"
  so_count :: nat

text \<open>The object built by the \<open>catch\<close> block of search.\<close>

definition searchFailed :: "jsError \<Rightarrow> string option \<Rightarrow> filters \<Rightarrow> searchOutcome" where
  "searchFailed err query f =
     \<lparr>so_success = False, so_error = Some (orStr (Some (message err)) ''Search failed''),
      so_original = query, so_filters = f, so_results = [], so_count = 0\<rparr>"

text \<open>
  search. After the loop the results are formatted, and the \<open>return\<close> statement builds
  the answer, property by property. Its property \<open>facets\<close> is computed from
  \<open>searchResult.facets\<close>; that statement stands outside the block of the loop in
  which \<open>searchResult\<close> is declared, no other binding of the name exists in the
  function or the module, and evaluating the name throws a ReferenceError. The error is
  thrown inside the \<open>try\<close> block, so the \<open>catch\<close> block answers.
\<close>

definition search ::
  "'w packageSearch \<Rightarrow> real \<Rightarrow> (string \<Rightarrow> string option) \<Rightarrow> string option \<Rightarrow> filters \<Rightarrow> nat \<Rightarrow> 'w
     \<Rightarrow> (searchOutcome \<times> 'w) option" where
  "search client relevanceThreshold formatDate query f maxResults w =
     (let sanitizedQuery = (if truthyStr query then sanitizeQuery (orStr query []) else []);
          solrQuery = (if hasKeys f then buildSolrQuery formatDate f else ''*:*'');
          finalQuery = (if sanitizedQuery \<noteq> [] then sanitizedQuery else solrQuery);
          filterQuery = (if solrQuery \<noteq> ''*:*'' then Some solrQuery else None)
      in case searchLoop client relevanceThreshold finalQuery filterQuery maxResults [] 0 0 w of
           None \<Rightarrow> None
         | Some (Inl err, w') \<Rightarrow> Some (searchFailed err query f, w')
         | Some (Inr (results, totalFound), w') \<Rightarrow>
             (let formattedResults =
                    map (\<lambda>d. \<lparr>si_metadata = formatDatasetMetadata d,
                              si_relevanceScore = scoreOf d,
                              si_resources =
                                formatResources (case ds_resources d of None \<Rightarrow> [] | Some rs \<Rightarrow> rs)\<rparr>)
                      (take maxResults results)
              in Some (searchFailed (ReferenceError ''searchResult is not defined'') query f, w')))"

subsection \<open>SearchDiscovery.searchByIds\<close>

text \<open>
  A slot of the answer of searchByIds: the formatted descriptor with its resources, or
  the object \<open>{id, error, success: false}\<close> of the \<open>catch\<close> block.
\<close>

datatype idRecord =
  Descriptor formattedDataset "formattedResource list"
| FetchFailure (ff_id: string) (ff_error: string) (ff_success: bool)

text \<open>
  The body of the \<open>try\<close> statement for one id. When the client answers with no
  dataset, formatDatasetMetadata reads a property of \<open>null\<close> and throws a TypeError,
  which the \<open>catch\<close> block records like an error of the client.
\<close>

definition idSlot :: "string \<Rightarrow> jsError + dataset option \<Rightarrow> idRecord" where
  "idSlot datasetId answer =
     (case answer of
        Inr (Some d) \<Rightarrow>
          Descriptor (formatDatasetMetadata d)
            (formatResources (case ds_resources d of None \<Rightarrow> [] | Some rs \<Rightarrow> rs))
      | Inr None \<Rightarrow>
          FetchFailure datasetId
            (orStr (Some (message (TypeError (''Cannot read properties of null (reading ''
                 @ [CHR 0x27] @ ''id'' @ [CHR 0x27] @ '')''))))
               ''Failed to fetch dataset'') False
      | Inl err \<Rightarrow>
          FetchFailure datasetId (orStr (Some (message err)) ''Failed to fetch dataset'') False)"

fun searchByIdsLoop :: "'w packageShow \<Rightarrow> string list \<Rightarrow> idRecord list \<Rightarrow> 'w \<Rightarrow> idRecord list \<times> 'w" where
  "searchByIdsLoop client [] results w = (results, w)"
| "searchByIdsLoop client (datasetId # rest) results w =
     (case client datasetId w of
        (answer, w') \<Rightarrow> searchByIdsLoop client rest (results @ [idSlot datasetId answer]) w')"

definition searchByIds :: "'w packageShow \<Rightarrow> string list \<Rightarrow> 'w \<Rightarrow> idRecord list \<times> 'w" where
  "searchByIds client datasetIds w =
     (if length datasetIds = 0 then ([], w) else searchByIdsLoop client datasetIds [] w)"


section \<open>Data acquisition\<close>

text \<open>
  The state of a DataAcquisition object, as its constructor sets it from the
  configuration (the file size limit is given in megabytes).
\<close>

record acquisition =
  maxFileSize :: nat
  resourceLimit :: nat
  supportedFormats :: "string list"

definition newDataAcquisition :: "nat option \<Rightarrow> nat option \<Rightarrow> acquisition" where
  "newDataAcquisition configMaxFileSize configResourceLimit =
     \<lparr>maxFileSize = orNat configMaxFileSize 50 * 1024 * 1024,
      resourceLimit = orNat configResourceLimit 3,
      supportedFormats = [''csv'', ''json'', ''xml'', ''xls'', ''xlsx'', ''txt'', ''tsv'']\<rparr>"

record acquireOptions =
  ao_resourceLimit :: "nat option"
  ao_includeData :: "bool option"
  ao_maxFileSize :: "nat option"

record resourceMetadata =
  rm_id :: "string option"
  rm_name :: "string option"
  rm_description :: "string option"
  rm_format :: formatField
  rm_url :: "string option"
  rm_size :: string
  rm_created :: "string option"
  rm_modified :: "string option"
  rm_mimetype :: "string option"

text \<open>
  The outcome for one resource; \<open>'p\<close> is the preview that parseResourceData gives.
  formatBytes prints a size with floating-point arithmetic; it is the argument
  \<open>formatBytes\<close> of the functions below.
\<close>

record 'p outcome =
  oc_metadata :: resourceMetadata
  oc_acquired :: bool
  oc_reason :: "string option"
  oc_error :: "string option"
  oc_dataSize :: "string option"
  oc_data :: "'p option"

definition formatResourceMetadata :: "(nat \<Rightarrow> string) \<Rightarrow> resource \<Rightarrow> resourceMetadata" where
  "formatResourceMetadata formatBytes r =
     \<lparr>rm_id = res_id r, rm_name = res_name r, rm_description = res_description r,
      rm_format = res_format r, rm_url = res_url r,
      rm_size = (case res_size r of
                   None \<Rightarrow> ''Unknown''
                 | Some sz \<Rightarrow> if sz = 0 then ''Unknown'' else formatBytes sz),
      rm_created = res_created r, rm_modified = res_last_modified r,
      rm_mimetype = res_mimetype r\<rparr>"

text \<open>
  The download of the bytes of a resource through the client: the address and the size
  limit go in, the bytes or the thrown error come out.
\<close>

type_synonym 'w downloadResource = "string \<Rightarrow> nat \<Rightarrow> 'w \<Rightarrow> (jsError + string) \<times> 'w"

definition notAcquired :: "resourceMetadata \<Rightarrow> string \<Rightarrow> 'p outcome" where
  "notAcquired metadata reason =
     \<lparr>oc_metadata = metadata, oc_acquired = False, oc_reason = Some reason, oc_error = None,
      oc_dataSize = None, oc_data = None\<rparr>"

definition acquireResource ::
  "acquisition \<Rightarrow> 'w downloadResource \<Rightarrow> (string \<Rightarrow> string \<Rightarrow> 'p) \<Rightarrow> (nat \<Rightarrow> string) \<Rightarrow> resource
     \<Rightarrow> bool \<Rightarrow> nat option \<Rightarrow> 'w \<Rightarrow> (jsError + 'p outcome) \<times> 'w" where
  "acquireResource acq downloadResource parseResourceData formatBytes r includeData optMaxFileSize w =
     (let metadata = formatResourceMetadata formatBytes r in
      case res_format r of
        FormatOther \<Rightarrow>
          (Inl (TypeError (''(resource.format || '' @ [CHR 0x27, CHR 0x27]
                  @ '').toLowerCase is not a function'')), w)
      | fmt \<Rightarrow>
          (let format = toLowerCase (case fmt of FormatText t \<Rightarrow> t | _ \<Rightarrow> []) in
           if \<not> List.member (supportedFormats acq) format
           then (Inr (notAcquired metadata
                   (''Format '' @ [CHR 0x27] @ format @ [CHR 0x27] @ '' not supported for download'')), w)
           else if orNat (res_size r) 0 \<noteq> 0 \<and> maxFileSize acq < orNat (res_size r) 0
           then (Inr (notAcquired metadata
                   (''File size ('' @ formatBytes (orNat (res_size r) 0) @ '') exceeds limit (''
                      @ formatBytes (maxFileSize acq) @ '')'')), w)
           else if includeData \<and> truthyStr (res_url r)
           then
             (case downloadResource (orStr (res_url r) []) (orNat optMaxFileSize (maxFileSize acq)) w of
                (Inr data, w') \<Rightarrow>
                  (Inr \<lparr>oc_metadata = metadata, oc_acquired = True, oc_reason = None,
                        oc_error = None, oc_dataSize = Some (formatBytes (length data)),
                        oc_data = Some (parseResourceData data format)\<rparr>, w')
              | (Inl err, w') \<Rightarrow>
                  (Inr \<lparr>oc_metadata = metadata, oc_acquired = False, oc_reason = None,
                        oc_error = Some (message err), oc_dataSize = None, oc_data = None\<rparr>, w'))
           else (Inr (notAcquired metadata ''Data download not requested''), w)))"

text \<open>
  The loop of acquireDataset over the first \<open>limit\<close> resources, by index
  (acquireDataset calls it with a limit that is at most the number of resources, so every
  index read is in range). The \<open>catch\<close> inside the loop turns an error thrown for one
  resource into the outcome of that resource.
\<close>

function acquireLoop ::
  "acquisition \<Rightarrow> 'w downloadResource \<Rightarrow> (string \<Rightarrow> string \<Rightarrow> 'p) \<Rightarrow> (nat \<Rightarrow> string) \<Rightarrow> acquireOptions
     \<Rightarrow> resource list \<Rightarrow> nat \<Rightarrow> nat \<Rightarrow> 'p outcome list \<Rightarrow> 'w \<Rightarrow> 'p outcome list \<times> 'w" where
  "acquireLoop acq downloadResource parseResourceData formatBytes options resources limit i processed w =
     (if i < limit
      then
        (let r = resources ! i in
         case acquireResource acq downloadResource parseResourceData formatBytes r
                (ao_includeData options \<noteq> Some False)
                (Some (orNat (ao_maxFileSize options) (maxFileSize acq))) w of
           (Inr resourceData, w') \<Rightarrow>
             acquireLoop acq downloadResource parseResourceData formatBytes options resources limit
               (i + 1) (processed @ [resourceData]) w'
         | (Inl err, w') \<Rightarrow>
             acquireLoop acq downloadResource parseResourceData formatBytes options resources limit
               (i + 1)
               (processed @ [\<lparr>oc_metadata = formatResourceMetadata formatBytes r,
                               oc_acquired = False, oc_reason = None,
                               oc_error = Some (message err), oc_dataSize = None,
                               oc_data = None\<rparr>]) w')
      else (processed, w))"
  by pat_completeness auto
termination
  by (relation "measure (\<lambda>(acq, dl, p, fb, opts, rs, limit, i, processed, w). limit - i)") auto

declare acquireLoop.simps [simp del]

record datasetSummary =
  sum_id :: "string option"
  sum_title :: "string option"
  sum_description :: "string option"
  sum_organization :: string
  sum_license :: string
  sum_tags :: "string option list"
  sum_metadata_created :: "string option"
  sum_metadata_modified :: "string option"
  sum_url :: string

datatype 'p acquired =
  Acquired (aq_dataset: datasetSummary) (aq_resources: "'p outcome list") (aq_resourceCount: nat)
    (aq_timestamp: string)
| AcquireFailed (aq_datasetId: string) (aq_error: string)

text \<open>
  acquireDataset. Only a failure to fetch the descriptor fails the call; the answer of
  the \<open>catch\<close> block then carries no resources.
\<close>

definition acquireDataset ::
  "acquisition \<Rightarrow> 'w packageShow \<Rightarrow> 'w downloadResource \<Rightarrow> (string \<Rightarrow> string \<Rightarrow> 'p) \<Rightarrow> (nat \<Rightarrow> string)
     \<Rightarrow> string \<Rightarrow> string \<Rightarrow> acquireOptions \<Rightarrow> 'w \<Rightarrow> 'p acquired \<times> 'w" where
  "acquireDataset acq packageShow downloadResource parseResourceData formatBytes now datasetId options w =
     (case packageShow datasetId w of
        (Inl err, w') \<Rightarrow> (AcquireFailed datasetId (message err), w')
      | (Inr None, w') \<Rightarrow> (AcquireFailed datasetId (''Dataset '' @ datasetId @ '' not found''), w')
      | (Inr (Some d), w') \<Rightarrow>
          (let resources = (case ds_resources d of None \<Rightarrow> [] | Some rs \<Rightarrow> rs);
               limit = min (orNat (ao_resourceLimit options) (resourceLimit acq)) (length resources)
           in case acquireLoop acq downloadResource parseResourceData formatBytes options resources
                     limit 0 [] w' of
                (processedResources, w'') \<Rightarrow>
                  (Acquired
                     \<lparr>sum_id = orOpt (ds_id d) (ds_name d),
                      sum_title = ds_title d,
                      sum_description = ds_notes d,
                      sum_organization =
                        (case ds_organization d of
                           None \<Rightarrow> ''Unknown''
                         | Some org \<Rightarrow> orStr (org_title org) ''Unknown''),
                      sum_license = orStr (ds_license_title d) ''Not specified'',
                      sum_tags = (case ds_tags d of
                                    None \<Rightarrow> []
                                  | Some ts \<Rightarrow> map (\<lambda>t. case t of TagStr s \<Rightarrow> None | TagObj n \<Rightarrow> n) ts),
                      sum_metadata_created = ds_metadata_created d,
                      sum_metadata_modified = ds_metadata_modified d,
                      sum_url = ''https://data.gov.in/resource/'' @ templateStr (ds_name d)\<rparr>
                     processedResources (length processedResources) now, w'')))"

section \<open>Example inputs\<close>

text \<open>
  A governance layer as the constructor builds it from an empty configuration, and a
  dataset with an id, a title and a description and no other field.
\<close>

definition exampleGovernance :: governance where
  "exampleGovernance =
     \<lparr>respectLicenses = True, blockRestrictedData = True, enableAuditLog = True,
      piiDetection = True, auditLog = [], blockedDatasets = {}, licenseWarnings = {}\<rparr>"

definition exampleDataset :: "string \<Rightarrow> string \<Rightarrow> dataset" where
  "exampleDataset title description =
     \<lparr>ds_id = Some ''d1'', ds_name = None, ds_title = Some title, ds_notes = None,
      ds_description = Some description, ds_organization = None, ds_sector = None,
      ds_groups = None, ds_tags = None, ds_license = None, ds_license_title = None,
      ds_license_id = None, ds_metadata_created = None, ds_metadata_modified = None,
      ds_num_resources = None, ds_resources = None, ds_url = None, ds_maintainer = None,
      ds_author = None, ds_score = None\<rparr>"

text \<open>
  Five resources of a dataset, among them one whose format is not a string and one
  without a format; a catalog that knows the dataset \<open>good-id\<close> and answers every
  other id with an error; a download that always succeeds and records in the state of the
  world the addresses it was asked for.
\<close>

definition exampleResource :: "string \<Rightarrow> formatField \<Rightarrow> string \<Rightarrow> resource" where
  "exampleResource ident fmt url =
     \<lparr>res_id = Some ident, res_name = None, res_description = None, res_format = fmt,
      res_url = Some url, res_size = None, res_created = None, res_last_modified = None,
      res_mimetype = None\<rparr>"

definition fiveResources :: "resource list" where
  "fiveResources =
     [exampleResource ''r1'' (FormatText ''PDF'') ''https://data.gov.in/files/r1.pdf'',
      exampleResource ''r2'' FormatOther ''https://data.gov.in/files/r2'',
      exampleResource ''r3'' (FormatText ''CSV'') ''https://data.gov.in/files/r3.csv'',
      exampleResource ''r4'' FormatAbsent ''https://data.gov.in/files/r4'',
      exampleResource ''r5'' (FormatText ''json'') ''https://data.gov.in/files/r5.json'']"

definition goodDataset :: dataset where
  "goodDataset =
     (exampleDataset ''Rainfall'' ''Monthly rainfall by district'')
       \<lparr>ds_resources := Some fiveResources\<rparr>"

definition catalogShow :: "string list packageShow" where
  "catalogShow datasetId w =
     (if datasetId = ''good-id'' then (Inr (Some goodDataset), w)
      else (Inl (RemoteError ''Resource not found.''), w))"





definition loggingDownload :: "string list downloadResource" where
  "loggingDownload url maxSize w = (Inr ''a,b'', w @ [url])"

text \<open>
  A resource whose address is the metadata endpoint of a cloud host, and what the
  \<open>URL\<close> class gives for that address.
\<close>

definition metadataResource :: resource where
  "metadataResource =
     exampleResource ''r9'' (FormatText ''CSV'') ''http://169.254.169.254/latest/meta-data/iam.csv''"

definition parseMetadataURL :: "string \<Rightarrow> string + parsedURL" where
  "parseMetadataURL url =
     (if url = ''http://169.254.169.254/latest/meta-data/iam.csv''
      then Inr \<lparr>protocol = ''http:'', hostname = ''169.254.169.254'', href = url\<rparr>
      else Inl ''Invalid URL'')"

text \<open>
  A catalog of two datasets that answers every search with the rows asked for and counts
  the calls, and an empty filter object.
\<close>

definition onePageCatalog :: "nat packageSearch" where
  "onePageCatalog call w =
     (Inr \<lparr>sr_count = Some 2,
           sr_results = Some (take (sc_rows call) (drop (sc_start call)
             [exampleDataset ''Rainfall'' ''Monthly rainfall by district'',
              exampleDataset ''Crops'' ''Crop yield by state''])) \<rparr>, w + 1)"

definition noFilters :: filters where
  "noFilters = \<lparr>f_organization = None, f_sector = None, f_tags = None, f_format = None,
                f_dateFrom = None, f_dateTo = None\<rparr>"

definition limitOptions :: "nat \<Rightarrow> acquireOptions" where
  "limitOptions n = \<lparr>ao_resourceLimit = Some n, ao_includeData = None, ao_maxFileSize = None\<rparr>"




section \<open>Properties of the redaction and of the retry delay\<close>

lemmas charClasses = isDigit_def isUpper_def isLower_def isWord_def isEmailChar_def isAt_def
  isDot_def isHyphen_def
lemmas piiPatterns = aadhaarRx_def panRx_def emailRx_def phoneRx_def ssnRx_def

text \<open>
  Claim C10. The detector and the redactor cover different patterns: detectPII flags the
  PAN-style and the SSN-style pattern, and redactPII replaces neither. So there is a text
  that redaction leaves unchanged and in which the detector still finds personal data;
  \<open>ABCDE1234F\<close> and \<open>123-45-6789\<close> are such texts.
\<close>

theorem redaction_leaves_detected_patterns:
  "(\<exists>t. redactPII t = t \<and> detectPII (redactPII t))
   \<and> redactPII ''ABCDE1234F'' = ''ABCDE1234F'' \<and> detectPII (redactPII ''ABCDE1234F'')
   \<and> redactPII ''123-45-6789'' = ''123-45-6789'' \<and> detectPII (redactPII ''123-45-6789'')"
proof -
  have pan: "redactPII ''ABCDE1234F'' = ''ABCDE1234F''"
    by (simp add: redactPII_def piiPatterns charClasses)
  have panDetected: "detectPII ''ABCDE1234F''"
    by (simp add: detectPII_def piiPatterns charClasses)
  have ssn: "redactPII ''123-45-6789'' = ''123-45-6789''"
    by (simp add: redactPII_def piiPatterns charClasses)
  have ssnDetected: "detectPII ''123-45-6789''"
    by (simp add: detectPII_def piiPatterns charClasses)
  from pan panDetected have "\<exists>t. redactPII t = t \<and> detectPII (redactPII t)"
    by (intro exI [of _ "''ABCDE1234F''"]) simp
  with pan panDetected ssn ssnDetected show ?thesis by simp
qed






































subsection \<open>The retry delay\<close>

lemma roundHalfEven_bounds: "\<lfloor>z\<rfloor> \<le> roundHalfEven z \<and> roundHalfEven z \<le> \<lceil>z\<rceil>"
  unfolding roundHalfEven_def Let_def by (auto simp: ceiling_altdef)

lemma roundHalfEven_le: "z \<le> of_int n \<Longrightarrow> roundHalfEven z \<le> n"
  using roundHalfEven_bounds [of z] by (meson ceiling_le order_trans)

lemma roundHalfEven_ge: "of_int n \<le> z \<Longrightarrow> n \<le> roundHalfEven z"
  using roundHalfEven_bounds [of z] by (meson le_floor_iff order_trans)


lemma pow2i_pos: "0 < pow2i k"
  by (simp add: pow2i_def)

lemma pow2i_neg: "k \<le> 0 \<Longrightarrow> pow2i k = 1 / 2 ^ nat (- k)"
  by (cases "k = 0") (simp_all add: pow2i_def)

lemma expo_lower: "- 1022 \<le> expo x"
proof (cases "1 \<le> \<bar>x\<bar>")
  case True
  then have "0 < \<lfloor>\<bar>x\<bar>\<rfloor>" by simp
  then have "1 \<le> bitlen \<lfloor>\<bar>x\<bar>\<rfloor>" by (simp add: bitlen_alt_def)
  with True show ?thesis by (simp add: expo_def)
next
  case False
  then show ?thesis by (simp add: expo_def)
qed

lemma bitlen_less_power:
  assumes "0 \<le> n" and "n < 2 ^ k"
  shows "bitlen n \<le> int k"
proof (cases "n = 0")
  case True
  then show ?thesis by simp
next
  case False
  with assms(1) have pos: "0 < n" by simp
  from bitlen_bounds [OF pos] have "2 ^ nat (bitlen n - 1) \<le> n" by simp
  with assms(2) have "(2::int) ^ nat (bitlen n - 1) < 2 ^ k" by linarith
  then have "nat (bitlen n - 1) < k" by (simp add: power_strict_increasing_iff)
  then show ?thesis by linarith
qed

lemma expo_upper:
  assumes "\<bar>x\<bar> < 2 ^ 51"
  shows "expo x \<le> 50"
proof (cases "1 \<le> \<bar>x\<bar>")
  case True
  have "\<lfloor>\<bar>x\<bar>\<rfloor> < 2 ^ 51" using assms by (simp add: floor_less_iff)
  moreover have "0 \<le> \<lfloor>\<bar>x\<bar>\<rfloor>" by simp
  ultimately have "bitlen \<lfloor>\<bar>x\<bar>\<rfloor> \<le> int 51" by (rule bitlen_less_power [rotated])
  with True show ?thesis by (simp add: expo_def)
next
  case False
  then have "\<bar>x\<bar> * 2 ^ 1074 < 1 * 2 ^ 1074" by (intro mult_strict_right_mono) simp_all
  then have "\<lfloor>\<bar>x\<bar> * 2 ^ 1074\<rfloor> < 2 ^ 1074" by (simp add: floor_less_iff)
  moreover have "0 \<le> \<lfloor>\<bar>x\<bar> * 2 ^ 1074\<rfloor>" by simp
  ultimately have "bitlen \<lfloor>\<bar>x\<bar> * 2 ^ 1074\<rfloor> \<le> int 1074" by (rule bitlen_less_power [rotated])
  with False show ?thesis by (simp add: expo_def)
qed

text \<open>Rounding keeps a number between two bounds that are multiples of a quarter.\<close>

lemma roundD_between:
  assumes "\<bar>x\<bar> < 2 ^ 51" and "of_int a / 4 \<le> x" and "x \<le> of_int c / 4"
  shows "\<exists>r. roundD x = Fin r \<and> of_int a / 4 \<le> r \<and> r \<le> of_int c / 4"
proof (cases "x = 0")
  case True
  with assms show ?thesis by (simp add: roundD_def)
next
  case False
  define g where "g = nat (52 - expo x)"
  have g: "2 \<le> g" and gk: "expo x - 52 = - int g"
    using expo_upper [OF assms(1)] expo_lower [of x] by (simp_all add: g_def)
  define g' where "g' = g - 2"
  have gg: "g = g' + 2" using g by (simp add: g'_def)
  have ulp: "pow2i (expo x - 52) = 1 / 2 ^ g"
    by (simp add: gk pow2i_neg)
  define m where "m = roundHalfEven (x * 2 ^ g)"
  have scale: "x * 2 ^ g \<le> of_int (c * 2 ^ g')" "of_int (a * 2 ^ g') \<le> x * 2 ^ g"
    using assms(2,3) by (simp_all add: gg field_simps)
  have mle: "m \<le> c * 2 ^ g'" unfolding m_def using scale(1) by (rule roundHalfEven_le)
  have mge: "a * 2 ^ g' \<le> m" unfolding m_def using scale(2) by (rule roundHalfEven_ge)
  define r where "r = of_int m / (2 ^ g :: real)"
  have "of_int m \<le> (of_int (c * 2 ^ g') :: real)" using mle by (simp only: of_int_le_iff)
  then have upper: "r \<le> of_int c / 4" by (simp add: r_def gg field_simps)
  have "(of_int (a * 2 ^ g') :: real) \<le> of_int m" using mge by (simp only: of_int_le_iff)
  then have lower: "of_int a / 4 \<le> r" by (simp add: r_def gg field_simps)
  have near: "\<bar>r\<bar> \<le> \<bar>x\<bar> + 1"
  proof -
    have b: "\<lfloor>x * 2 ^ g\<rfloor> \<le> m" "m \<le> \<lceil>x * 2 ^ g\<rceil>"
      using roundHalfEven_bounds [of "x * 2 ^ g"] by (simp_all add: m_def)
    have p: "(1::real) \<le> 2 ^ g" by simp
    have e1: "(x - 1) * 2 ^ g = x * 2 ^ g - 2 ^ g" and e2: "(x + 1) * 2 ^ g = x * 2 ^ g + 2 ^ g"
      by (simp_all add: algebra_simps)
    have "x * 2 ^ g - 1 \<le> of_int m" using b(1) by linarith
    then have "(x - 1) * 2 ^ g \<le> of_int m" unfolding e1 using p by linarith
    then have lo: "x - 1 \<le> r" by (simp add: r_def pos_le_divide_eq)
    have "of_int m \<le> x * 2 ^ g + 1" using b(2) by linarith
    then have "of_int m \<le> (x + 1) * 2 ^ g" unfolding e2 using p by linarith
    then have hi: "r \<le> x + 1" by (simp add: r_def pos_divide_le_eq)
    from lo hi have "\<bar>r\<bar> \<le> \<bar>x\<bar> + 1" by linarith
    then show ?thesis by linarith
  qed
  have "\<bar>r\<bar> < 2 ^ 51 + 1" using near assms(1) by linarith
  also have "(2::real) ^ 51 + 1 \<le> 2 ^ 1024" by simp
  finally have small: "\<not> 2 ^ 1024 \<le> \<bar>r\<bar>" by simp
  have "roundD x = Fin r"
    using False small by (simp add: roundD_def ulp Let_def m_def r_def)
  with lower upper show ?thesis by blast
qed

lemma roundD_exact:
  assumes "\<bar>of_int a / 4 :: real\<bar> < 2 ^ 51"
  shows "roundD (of_int a / 4) = Fin (of_int a / 4)"
  using roundD_between [OF assms, of a a] by auto


lemma pow2i_shift: "2 ^ p * pow2i (int k - int p) = 2 ^ k"
proof (cases "p \<le> k")
  case True
  then have "pow2i (int k - int p) = 2 ^ (k - p)" by (simp add: pow2i_def nat_diff_distrib)
  moreover have "(2::real) ^ p * 2 ^ (k - p) = 2 ^ (p + (k - p))" by (rule power_add [symmetric])
  ultimately show ?thesis using True by simp
next
  case False
  then have "pow2i (int k - int p) = 1 / 2 ^ (p - k)" by (simp add: pow2i_def nat_diff_distrib)
  moreover have "(2::real) ^ k * 2 ^ (p - k) = 2 ^ (k + (p - k))" by (rule power_add [symmetric])
  then have "(2::real) ^ p = 2 ^ k * 2 ^ (p - k)" using False by simp
  ultimately show ?thesis by simp
qed

text \<open>A number from \<open>2 ^ 51\<close> on rounds to a number from \<open>2 ^ 51\<close> on, or overflows.\<close>

lemma roundD_large:
  assumes "2 ^ 51 \<le> x"
  shows "roundD x = PInf \<or> (\<exists>r. roundD x = Fin r \<and> 2 ^ 51 \<le> r)"
proof -
  have x: "0 < x" "x \<noteq> 0" "1 \<le> \<bar>x\<bar>" "\<bar>x\<bar> = x" using assms by simp_all
  define n where "n = \<lfloor>x\<rfloor>"
  have n51: "2 ^ 51 \<le> n" using assms by (simp add: n_def le_floor_iff)
  have "(0::int) < 2 ^ 51" by simp
  with n51 have npos: "0 < n" by linarith
  from bitlen_bounds [OF npos] have lo: "2 ^ nat (bitlen n - 1) \<le> n" and hi: "n < 2 ^ nat (bitlen n)"
    by simp_all
  have "(2::int) ^ 51 < 2 ^ nat (bitlen n)" using n51 hi by linarith
  then have "51 < nat (bitlen n)"
    using power_less_imp_less_exp [of "2::int" 51 "nat (bitlen n)"] by simp
  then have k51: "51 \<le> nat (bitlen n - 1)" by linarith
  define k where "k = nat (bitlen n - 1)"
  have ek: "expo x = int k" using x k51 by (simp add: expo_def n_def k_def)
  have "real_of_int (2 ^ k) \<le> of_int n" using lo unfolding k_def by (simp only: of_int_le_iff)
  also have "of_int n \<le> x" by (simp add: n_def)
  finally have xk: "2 ^ k \<le> x" by simp
  define u where "u = pow2i (int k - 52)"
  have upos: "0 < u" by (simp add: u_def pow2i_pos)
  have u52: "2 ^ 52 * u = 2 ^ k"
    using pow2i_shift [of 52 k] by (simp add: u_def)
  have "of_int (2 ^ 52) \<le> x / u" using xk upos u52 by (simp add: pos_le_divide_eq)
  then have "2 ^ 52 \<le> roundHalfEven (x / u)" by (rule roundHalfEven_ge)
  then have "(of_int (2 ^ 52) :: real) \<le> of_int (roundHalfEven (x / u))" by (simp only: of_int_le_iff)
  then have "2 ^ 52 * u \<le> of_int (roundHalfEven (x / u)) * u" using upos by simp
  then have r: "2 ^ 51 \<le> of_int (roundHalfEven (x / u)) * u"
    using u52 k51 power_increasing [of 51 k "2::real"] by (simp add: k_def)
  show ?thesis using x r by (auto simp: roundD_def ek u_def Let_def)
qed

text \<open>
  The delay before the jitter, for a base and a maximum that are whole numbers of
  milliseconds between 1 and \<open>2 ^ 31\<close>: it is computed without a rounding error.
\<close>

lemma exponentialDelay_exact:
  assumes "1 \<le> b" and "b \<le> 2 ^ 31" and "1 \<le> m" and "m \<le> 2 ^ 31"
  shows "minD (mulD (Fin (of_int b)) (pow2D attempt)) (Fin (of_int m))
     = Fin (of_int (min (b * 2 ^ attempt) m))"
proof (cases "attempt \<le> 1023")
  case False
  then have "(1024::nat) \<le> attempt" by simp
  then have "(2::int) ^ 1024 \<le> 2 ^ attempt" by (rule power_increasing) simp
  then have "(2::int) ^ 31 \<le> 2 ^ attempt" by simp
  then have "m \<le> 1 * 2 ^ attempt" using assms(4) by linarith
  also have "\<dots> \<le> b * 2 ^ attempt" using assms(1) by (intro mult_right_mono) simp_all
  finally have "min (b * 2 ^ attempt) m = m" by simp
  then show ?thesis using False assms(1) by (simp add: pow2D_def)
next
  case True
  let ?x = "of_int b * 2 ^ attempt :: real"
  show ?thesis
  proof (cases "?x < 2 ^ 51")
    case small: True
    have "?x = of_int (4 * (b * 2 ^ attempt)) / 4" by simp
    moreover have "\<bar>of_int (4 * (b * 2 ^ attempt)) / 4 :: real\<bar> < 2 ^ 51"
      using small assms(1) by simp
    ultimately have "roundD ?x = Fin ?x" using roundD_exact [of "4 * (b * 2 ^ attempt)"] by simp
    moreover have "min ?x (of_int m) = of_int (min (b * 2 ^ attempt) m)"
    proof -
      have xi: "?x = real_of_int (b * 2 ^ attempt)" by simp
      show ?thesis unfolding xi by (simp add: min_def del: of_int_mult of_int_power)
    qed
    ultimately show ?thesis using True by (simp add: pow2D_def)
  next
    case False
    then have large: "2 ^ 51 \<le> ?x" by simp
    have "real_of_int m \<le> of_int (2 ^ 31)" using assms(4) by (simp only: of_int_le_iff)
    then have mx: "real_of_int m \<le> 2 ^ 51" by simp
    have "real_of_int m \<le> ?x" using mx large by linarith
    then have "real_of_int m \<le> real_of_int (b * 2 ^ attempt)" by simp
    then have "m \<le> b * 2 ^ attempt" by (simp only: of_int_le_iff)
    then have e: "min (b * 2 ^ attempt) m = m" by simp
    from roundD_large [OF large] show ?thesis
    proof
      assume "roundD ?x = PInf"
      then show ?thesis using True by (simp add: pow2D_def e)
    next
      assume "\<exists>r. roundD ?x = Fin r \<and> 2 ^ 51 \<le> r"
      then obtain r where r: "roundD ?x = Fin r" "2 ^ 51 \<le> r" by blast
      then have "min r (of_int m) = of_int m" using mx by simp
      then show ?thesis using True r by (simp add: pow2D_def e)
    qed
  qed
qed

text \<open>
  With the base delay 0 and an attempt from 1024 on the product \<open>0 * Infinity\<close> is
  NaN, and so is the delay.
\<close>

lemma calculateBackoff_zero_base_overflow:
  "calculateBackoff 1024 (Fin 0) (Fin 30000) (Fin (1 / 2)) = NaN"
  by (simp add: calculateBackoff_def pow2D_def subD_def)

text \<open>
  The rounding of the intermediate results is part of the value: with the defaults and
  the random number 0.3 (the double \<open>5404319552844595 / 2 ^ 54\<close>) the jitter
  \<open>250 * (0.6 - 1)\<close> rounds to \<open>-100\<close> and the delay is 900, where exact
  arithmetic would give a number just below 900 and the integer part 899.
\<close>

lemma calculateBackoff_rounded_jitter:
  "calculateBackoff 0 (Fin 1000) (Fin 30000) (Fin (5404319552844595 / 2 ^ 54)) = Fin 900"
  by code_simp

text \<open>
  Claim C4, as stated, fails: the jitter is added after the delay is capped, so the delay
  can exceed the configured maximum. With base 1000, maximum 30000, attempt 5 and the
  random number 0.75 the delay is 33750.
\<close>

theorem calculateBackoff_exceeds_cap:
  "calculateBackoff 5 (Fin 1000) (Fin 30000) (Fin (3 / 4)) = Fin 33750
   \<and> \<not> (33750::real) \<le> 30000"
proof -
  have a: "roundD 32000 = Fin 32000" using roundD_exact [of 128000] by simp
  have b: "roundD 7500 = Fin 7500" using roundD_exact [of 30000] by simp
  have c: "roundD (3 / 2) = Fin (3 / 2)" using roundD_exact [of 6] by simp
  have d: "roundD (1 / 2) = Fin (1 / 2)" using roundD_exact [of 2] by simp
  have e: "roundD 3750 = Fin 3750" using roundD_exact [of 15000] by simp
  have f: "roundD 33750 = Fin 33750" using roundD_exact [of 135000] by simp
  show ?thesis by (simp add: calculateBackoff_def pow2D_def subD_def a b c d e f)
qed

text \<open>
  Claim C4, amended. For every attempt, every base delay and maximum delay that are whole
  numbers of milliseconds from 1 to \<open>2 ^ 31\<close>, and every outcome of the random
  number in \<open>[0, 1)\<close>, the delay is a whole number; with
  \<open>e = min (base * 2 ^ attempt) maximum\<close> it is at least the integer part of
  \<open>0.75 * e\<close> and at most \<open>1.25 * e\<close>, and it never exceeds 1.25 times the
  configured maximum. All the operations are those on doubles, rounding included.
\<close>

theorem calculateBackoff_bounds:
  assumes "1 \<le> baseDelay" and "baseDelay \<le> 2 ^ 31" and "1 \<le> maxDelay" and "maxDelay \<le> 2 ^ 31"
    and "0 \<le> rnd" and "rnd < 1"
  shows "\<exists>delay::int.
      calculateBackoff attempt (Fin (of_int baseDelay)) (Fin (of_int maxDelay)) (Fin rnd) = Fin (of_int delay)
      \<and> \<lfloor>of_int (min (baseDelay * 2 ^ attempt) maxDelay) * 0.75 :: real\<rfloor> \<le> delay
      \<and> of_int delay \<le> real_of_int (min (baseDelay * 2 ^ attempt) maxDelay) * 1.25
      \<and> of_int delay \<le> real_of_int maxDelay * 1.25"
proof -
  define E where "E = min (baseDelay * 2 ^ attempt) maxDelay"
  have "1 * 1 \<le> baseDelay * 2 ^ attempt" using assms(1) by (intro mult_mono) simp_all
  then have E1: "1 \<le> E" using assms(3) by (simp add: E_def)
  have Em: "E \<le> maxDelay" by (simp add: E_def)
  then have "E \<le> 2 ^ 31" using assms(4) by linarith
  then have "real_of_int E \<le> of_int (2 ^ 31)" by (simp only: of_int_le_iff)
  then have Eu: "real_of_int E \<le> 2147483648" by simp
  have El: "1 \<le> real_of_int E" using E1 by simp
  have Emr: "real_of_int E \<le> real_of_int maxDelay" using Em by simp
  have ed: "minD (mulD (Fin (of_int baseDelay)) (pow2D attempt)) (Fin (of_int maxDelay)) = Fin (of_int E)"
    unfolding E_def using assms(1-4) by (rule exponentialDelay_exact)
  have q: "roundD (real_of_int E / 4) = Fin (of_int E / 4)"
    using roundD_exact [of E] El Eu by simp
  have "\<bar>rnd * 2\<bar> < 2 ^ 51" using assms(5,6) by (simp add: abs_less_iff)
  from roundD_between [OF this, of 0 8]
  obtain x where x: "roundD (rnd * 2) = Fin x" "0 \<le> x" "x \<le> 2"
    using assms(5,6) by auto
  have "\<bar>x - 1\<bar> < 2 ^ 51" using x(2,3) by (simp add: abs_less_iff)
  from roundD_between [OF this, of "- 4" 4]
  obtain y where y: "roundD (x - 1) = Fin y" "- 1 \<le> y" "y \<le> 1"
    using x(2,3) by auto
  have "real_of_int E / 4 * y \<le> real_of_int E / 4 * 1" using y(3) El by (intro mult_left_mono) simp_all
  moreover have "real_of_int E / 4 * (- 1) \<le> real_of_int E / 4 * y"
    using y(2) El by (intro mult_left_mono) simp_all
  ultimately have jb: "- real_of_int E / 4 \<le> real_of_int E / 4 * y" "real_of_int E / 4 * y \<le> real_of_int E / 4"
    by simp_all
  have e4: "real_of_int E / 4 < 2 ^ 51" "real_of_int E * 5 / 4 < 2 ^ 51" using Eu by simp_all
  have "\<bar>real_of_int E / 4 * y\<bar> < 2 ^ 51" using jb e4(1) by linarith
  from roundD_between [OF this, of "- E" E]
  obtain j where j: "roundD (real_of_int E / 4 * y) = Fin j" "- real_of_int E / 4 \<le> j" "j \<le> real_of_int E / 4"
    using jb by auto
  have "\<bar>real_of_int E + j\<bar> < 2 ^ 51" using j(2,3) El e4(2) by linarith
  from roundD_between [OF this, of "3 * E" "5 * E"]
  obtain s where s: "roundD (real_of_int E + j) = Fin s" "real_of_int E * 3 / 4 \<le> s" "s \<le> real_of_int E * 5 / 4"
    using j(2,3) by auto
  have j': "roundD (real_of_int E * y / 4) = Fin j" using j(1) by simp
  have val: "calculateBackoff attempt (Fin (of_int baseDelay)) (Fin (of_int maxDelay)) (Fin rnd)
      = Fin (of_int \<lfloor>s\<rfloor>)"
    by (simp add: calculateBackoff_def Let_def ed subD_def q x(1) y(1) j' s(1))
  have lo: "\<lfloor>real_of_int E * 0.75\<rfloor> \<le> \<lfloor>s\<rfloor>" using s(2) by (intro floor_mono) simp
  have fl: "real_of_int \<lfloor>s\<rfloor> \<le> s" by simp
  have "real_of_int E * 5 / 4 = real_of_int E * 1.25" by simp
  then have hi: "real_of_int \<lfloor>s\<rfloor> \<le> real_of_int E * 1.25" using s(3) fl by linarith
  have "real_of_int E * 1.25 \<le> real_of_int maxDelay * 1.25" using Emr by simp
  then have cap: "real_of_int \<lfloor>s\<rfloor> \<le> real_of_int maxDelay * 1.25" using hi by linarith
  show ?thesis using val lo hi cap unfolding E_def by blast
qed

theorem calculateBackoff_bounds_witness:
  "(1::int) \<le> 1000 \<and> (1000::int) \<le> 2 ^ 31 \<and> (1::int) \<le> 30000 \<and> (30000::int) \<le> 2 ^ 31
   \<and> (0::real) \<le> 3 / 4 \<and> (3 / 4 :: real) < 1
   \<and> (\<exists>delay::int.
      calculateBackoff 5 (Fin (of_int 1000)) (Fin (of_int 30000)) (Fin (3 / 4)) = Fin (of_int delay)
      \<and> \<lfloor>of_int (min (1000 * 2 ^ 5) 30000) * 0.75 :: real\<rfloor> \<le> delay
      \<and> of_int delay \<le> real_of_int (min (1000 * 2 ^ 5) 30000) * 1.25
      \<and> of_int delay \<le> real_of_int 30000 * 1.25)"
  using calculateBackoff_bounds [of 1000 30000 "3 / 4" 5] by simp

section \<open>Properties of the governance layer\<close>

lemma exampleDataset_fields:
  "ds_id (exampleDataset t x) = Some ''d1''"
  "ds_name (exampleDataset t x) = None"
  "ds_title (exampleDataset t x) = Some t"
  "ds_description (exampleDataset t x) = Some x"
  "ds_license_title (exampleDataset t x) = None"
  "ds_license_id (exampleDataset t x) = None"
  by (simp_all add: exampleDataset_def)

lemma includesStr_iff: "includesStr s k \<longleftrightarrow> (\<exists>p q. s = p @ k @ q)"
proof (induction s)
  case Nil
  then show ?case by auto
next
  case (Cons c cs)
  show ?case
  proof (cases "prefix k (c # cs)")
    case True
    then obtain q where "c # cs = k @ q" by (auto simp: prefix_def)
    then have "c # cs = [] @ k @ q" by simp
    with True show ?thesis by (metis includesStr.simps(2))
  next
    case False
    have "(\<exists>p q. c # cs = p @ k @ q) \<longleftrightarrow> (\<exists>p q. cs = p @ k @ q)"
    proof
      assume "\<exists>p q. c # cs = p @ k @ q"
      then obtain p q where pq: "c # cs = p @ k @ q" by blast
      show "\<exists>p q. cs = p @ k @ q"
      proof (cases p)
        case Nil
        with pq have "prefix k (c # cs)" by (simp add: prefix_def)
        with False show ?thesis by simp
      next
        case (Cons a p')
        with pq have "cs = p' @ k @ q" by simp
        then show ?thesis by blast
      qed
    next
      assume "\<exists>p q. cs = p @ k @ q"
      then obtain p q where "cs = p @ k @ q" by blast
      then have "c # cs = (c # p) @ k @ q" by simp
      then show "\<exists>p q. c # cs = p @ k @ q" by blast
    qed
    with False Cons.IH show ?thesis by simp
  qed
qed

lemma includesStr_append:
  "includesStr b k \<Longrightarrow> includesStr (a @ b @ c) k"
proof -
  assume "includesStr b k"
  then obtain p q where "b = p @ k @ q" by (auto simp: includesStr_iff)
  then have "a @ b @ c = (a @ p) @ k @ (q @ c)" by simp
  then show ?thesis unfolding includesStr_iff by blast
qed

lemma datasetText_description:
  assumes "orOpt (ds_description d) (ds_notes d) = Some description"
    and "includesStr (toLowerCase description) keyword"
    and "keyword \<noteq> []"
  shows "includesStr (datasetText d) keyword"
proof -
  from assms(2,3) have ne: "description \<noteq> []" by (auto simp: toLowerCase_def)
  have "datasetText d = toLowerCase (orStr (ds_title d) [] @ '' '') @ toLowerCase description
      @ toLowerCase ('' '' @ orStr (map_option (\<lambda>ts. join '' '' (map tagText ts)) (ds_tags d)) [])"
    using assms(1) ne by (simp add: datasetText_def toLowerCase_def orStr_def)
  then show ?thesis using assms(2) by (simp add: includesStr_append)
qed


lemma find_restriction:
  assumes "includesStr (datasetText d) ''confidential''"
  shows "find (\<lambda>keyword. includesStr (datasetText d) keyword) restrictedKeywords =
     Some (if includesStr (datasetText d) ''internal-use'' then ''internal-use''
           else if includesStr (datasetText d) ''restricted'' then ''restricted''
           else ''confidential'')"
  using assms by (simp add: restrictedKeywords_def)

text \<open>
  Claim C5, amended. With restriction blocking enabled, an item whose description (in any
  letter case) contains \<open>confidential\<close> is refused, whatever the license and PII
  settings are: \<open>allowed\<close> is false and the restriction check is marked failed. The
  keyword written into the verdict is the first keyword of the list that occurs in title,
  description and tags: it is \<open>confidential\<close> unless \<open>internal-use\<close> or
  \<open>restricted\<close> occur too, which come first in the list.
\<close>

theorem validateDatasetAccess_blocks_confidential:
  assumes "blockRestrictedData g"
    and "orOpt (ds_description d) (ds_notes d) = Some description"
    and "includesStr (toLowerCase description) ''confidential''"
  shows "allowed (fst (validateDatasetAccess g now d)) = False
       \<and> restrictionCheck (compliance (fst (validateDatasetAccess g now d))) = False
       \<and> errors (fst (validateDatasetAccess g now d)) =
           [restrictionReason
              (if includesStr (datasetText d) ''internal-use'' then ''internal-use''
               else if includesStr (datasetText d) ''restricted'' then ''restricted''
               else ''confidential'')]"
proof -
  have "includesStr (datasetText d) ''confidential''"
    using assms(2,3) by (rule datasetText_description) simp
  then have found: "checkRestrictions g d =
      (Restricted
         (restrictionReason
            (if includesStr (datasetText d) ''internal-use'' then ''internal-use''
             else if includesStr (datasetText d) ''restricted'' then ''restricted''
             else ''confidential''))
         (if includesStr (datasetText d) ''internal-use'' then ''internal-use''
          else if includesStr (datasetText d) ''restricted'' then ''restricted''
          else ''confidential''),
       g\<lparr>blockedDatasets := insert (orOpt (ds_id d) (ds_name d)) (blockedDatasets g)\<rparr>)"
    unfolding checkRestrictions_def by (simp only: find_restriction option.case)
  show ?thesis
    using assms(1)
    by (simp add: validateDatasetAccess_def found Let_def split: prod.splits licenseResult.splits)
qed

theorem validateDatasetAccess_blocks_confidential_witness:
  "blockRestrictedData exampleGovernance
   \<and> orOpt (ds_description (exampleDataset ''Budget'' ''Confidential budget notes''))
         (ds_notes (exampleDataset ''Budget'' ''Confidential budget notes''))
       = Some ''Confidential budget notes''
   \<and> includesStr (toLowerCase ''Confidential budget notes'') ''confidential''
   \<and> allowed (fst (validateDatasetAccess exampleGovernance ''2024-01-01T00:00:00.000Z''
        (exampleDataset ''Budget'' ''Confidential budget notes''))) = False
   \<and> errors (fst (validateDatasetAccess exampleGovernance ''2024-01-01T00:00:00.000Z''
        (exampleDataset ''Budget'' ''Confidential budget notes'')))
       = [restrictionReason ''confidential'']"
proof -
  have a: "blockRestrictedData exampleGovernance" by (simp add: exampleGovernance_def)
  have b: "orOpt (ds_description (exampleDataset ''Budget'' ''Confidential budget notes''))
         (ds_notes (exampleDataset ''Budget'' ''Confidential budget notes''))
       = Some ''Confidential budget notes''"
    by (simp add: exampleDataset_def orOpt_def truthyStr_def)
  have c: "includesStr (toLowerCase ''Confidential budget notes'') ''confidential''"
    by (simp add: toLowerCase_def toLowerChar_def)
  have t: "datasetText (exampleDataset ''Budget'' ''Confidential budget notes'')
      = ''budget confidential budget notes ''"
    by (simp add: datasetText_def exampleDataset_def toLowerCase_def toLowerChar_def orStr_def
        orOpt_def truthyStr_def)
  from validateDatasetAccess_blocks_confidential [OF a b c, of "''2024-01-01T00:00:00.000Z''"]
  show ?thesis using a b c unfolding t by simp
qed

text \<open>
  Claim C5, as stated, fails: the description below contains \<open>confidential\<close>, but
  the keyword recorded is \<open>restricted\<close>, and \<open>confidential\<close> stands nowhere in
  the errors and warnings of the verdict.
\<close>

theorem validateDatasetAccess_records_first_keyword:
  "blockRestrictedData exampleGovernance
   \<and> includesStr (toLowerCase ''Restricted and confidential records'') ''confidential''
   \<and> errors (fst (validateDatasetAccess exampleGovernance ''2024-01-01T00:00:00.000Z''
        (exampleDataset ''Records'' ''Restricted and confidential records'')))
       = [restrictionReason ''restricted'']
   \<and> \<not> list_ex (\<lambda>e. includesStr e ''confidential'')
         (errors (fst (validateDatasetAccess exampleGovernance ''2024-01-01T00:00:00.000Z''
            (exampleDataset ''Records'' ''Restricted and confidential records'')))
          @ warnings (fst (validateDatasetAccess exampleGovernance ''2024-01-01T00:00:00.000Z''
            (exampleDataset ''Records'' ''Restricted and confidential records''))))"
proof -
  have t: "datasetText (exampleDataset ''Records'' ''Restricted and confidential records'')
      = ''records restricted and confidential records ''"
    by (simp add: datasetText_def exampleDataset_def toLowerCase_def toLowerChar_def orStr_def
        orOpt_def truthyStr_def)
  have v: "fst (validateDatasetAccess exampleGovernance ''2024-01-01T00:00:00.000Z''
        (exampleDataset ''Records'' ''Restricted and confidential records''))
     = \<lparr>allowed = False,
        warnings = [''No license specified. Use with caution. Attribution recommended.''],
        errors = [restrictionReason ''restricted''],
        compliance = \<lparr>licenseCheck = False, restrictionCheck = False, piiCheck = True\<rparr>\<rparr>"
    by (simp add: validateDatasetAccess_def checkRestrictions_def checkLicense_def t
        restrictedKeywords_def exampleGovernance_def Let_def orStr_def orOpt_def truthyStr_def
        exampleDataset_fields)
  show ?thesis unfolding v
    by (simp add: exampleGovernance_def toLowerCase_def toLowerChar_def restrictionReason_def)
qed

text \<open>
  Claim C8. The verdict refuses an item only when restriction blocking is enabled and a
  restriction keyword occurs: the license check never blocks. With the license check
  enabled, an item with no declared license gets the warning that no license is
  specified, and the license check is marked failed. So an item without a license and
  without restriction keywords is allowed, with a warning list that is not empty.
\<close>

theorem validateDatasetAccess_license_never_blocks:
  "allowed (fst (validateDatasetAccess g now d))
     = (\<not> (blockRestrictedData g
            \<and> list_ex (\<lambda>keyword. includesStr (datasetText d) keyword) restrictedKeywords))
   \<and> (respectLicenses g \<and> \<not> truthyStr (ds_license_title d) \<and> \<not> truthyStr (ds_license_id d)
        \<longrightarrow> warnings (fst (validateDatasetAccess g now d))
              = [''No license specified. Use with caution. Attribution recommended.'']
            \<and> licenseCheck (compliance (fst (validateDatasetAccess g now d))) = False)"
proof -
  have r: "(case fst (checkRestrictions g d) of Restricted x y \<Rightarrow> False | Unrestricted x \<Rightarrow> True)
      = (\<not> list_ex (\<lambda>keyword. includesStr (datasetText d) keyword) restrictedKeywords)"
  proof -
    have "(find (\<lambda>keyword. includesStr (datasetText d) keyword) restrictedKeywords = None)
        = (\<not> list_ex (\<lambda>keyword. includesStr (datasetText d) keyword) restrictedKeywords)"
      by (auto simp: find_None_iff list_ex_iff)
    then show ?thesis
      by (cases "find (\<lambda>keyword. includesStr (datasetText d) keyword) restrictedKeywords")
         (simp_all add: checkRestrictions_def)
  qed
  have gr: "respectLicenses (snd (checkRestrictions g d)) = respectLicenses g"
    by (simp add: checkRestrictions_def split: option.splits)
  have l: "\<not> truthyStr (ds_license_title d) \<Longrightarrow> \<not> truthyStr (ds_license_id d) \<Longrightarrow>
      fst (checkLicense g' d)
        = Restrictive ''No license specified. Use with caution. Attribution recommended.''
            ''Not specified''" for g'
    by (auto simp: checkLicense_def orOpt_def orStr_def truthyStr_def Let_def split: option.splits)
  show ?thesis
    using r gr l [of g] l [of "snd (checkRestrictions g d)"]
    by (cases "checkRestrictions g d"; cases "fst (checkRestrictions g d)";
        cases "checkLicense g d"; cases "fst (checkLicense g d)";
        cases "checkLicense (snd (checkRestrictions g d)) d";
        cases "fst (checkLicense (snd (checkRestrictions g d)) d)")
       (auto simp: validateDatasetAccess_def Let_def)
qed


theorem validateDatasetAccess_license_never_blocks_witness:
  "respectLicenses exampleGovernance
   \<and> \<not> truthyStr (ds_license_title (exampleDataset ''Rainfall'' ''Monthly rainfall by district''))
   \<and> \<not> truthyStr (ds_license_id (exampleDataset ''Rainfall'' ''Monthly rainfall by district''))
   \<and> \<not> list_ex (\<lambda>keyword. includesStr
           (datasetText (exampleDataset ''Rainfall'' ''Monthly rainfall by district'')) keyword)
         restrictedKeywords
   \<and> allowed (fst (validateDatasetAccess exampleGovernance ''2024-01-01T00:00:00.000Z''
        (exampleDataset ''Rainfall'' ''Monthly rainfall by district'')))
   \<and> warnings (fst (validateDatasetAccess exampleGovernance ''2024-01-01T00:00:00.000Z''
        (exampleDataset ''Rainfall'' ''Monthly rainfall by district'')))
       = [''No license specified. Use with caution. Attribution recommended.'']"
proof -
  have t: "datasetText (exampleDataset ''Rainfall'' ''Monthly rainfall by district'')
      = ''rainfall monthly rainfall by district ''"
    by (simp add: datasetText_def exampleDataset_def toLowerCase_def toLowerChar_def orStr_def
        orOpt_def truthyStr_def)
  have k: "\<not> list_ex (\<lambda>keyword. includesStr ''rainfall monthly rainfall by district '' keyword)
         restrictedKeywords"
    by (simp add: restrictedKeywords_def)
  have f: "respectLicenses exampleGovernance"
    "\<not> truthyStr (ds_license_title (exampleDataset ''Rainfall'' ''Monthly rainfall by district''))"
    "\<not> truthyStr (ds_license_id (exampleDataset ''Rainfall'' ''Monthly rainfall by district''))"
    by (simp_all add: exampleGovernance_def exampleDataset_fields truthyStr_def)
  from validateDatasetAccess_license_never_blocks
         [of exampleGovernance "''2024-01-01T00:00:00.000Z''"
             "exampleDataset ''Rainfall'' ''Monthly rainfall by district''"]
  show ?thesis using f k unfolding t by simp
qed

section \<open>Properties of search and discovery\<close>







text \<open>The example of the specification: one id that is found and one that is not.\<close>

theorem searchByIds_good_and_missing:
  "fst (searchByIds catalogShow [''good-id'', ''missing-id''] [])
     = [Descriptor (formatDatasetMetadata goodDataset) (formatResources fiveResources),
        FetchFailure ''missing-id'' ''Resource not found.'' False]"
  by (simp add: searchByIds_def catalogShow_def idSlot_def orStr_def goodDataset_def)

text \<open>
  Claim C1 does not hold of the code. Whenever search returns, it returns the failure
  object of its \<open>catch\<close> block, with no results: the \<open>return\<close> statement of the
  \<open>try\<close> block reads \<open>searchResult\<close> outside the block that declares it.
\<close>

theorem search_never_succeeds:
  assumes "search client relevanceThreshold formatDate query f maxResults w = Some (outcome, w')"
  shows "so_success outcome = False \<and> so_results outcome = [] \<and> so_count outcome = 0"
  using assms
  by (auto simp: search_def searchFailed_def Let_def split: option.splits sum.splits prod.splits)

text \<open>
  A catalog with two datasets, asked for at most ten results: the loop ends after one
  page with both datasets accumulated, and search answers with the failure object.
\<close>

theorem search_never_succeeds_witness:
  "search onePageCatalog (1 / 2) (\<lambda>s. Some s) (Some ''rainfall'') noFilters 10 0
     = Some (searchFailed (ReferenceError ''searchResult is not defined'') (Some ''rainfall'')
               noFilters, 1)
   \<and> so_success (searchFailed (ReferenceError ''searchResult is not defined'') (Some ''rainfall'')
        noFilters) = False
   \<and> so_error (searchFailed (ReferenceError ''searchResult is not defined'') (Some ''rainfall'')
        noFilters) = Some ''searchResult is not defined''"
proof -
  have loop: "searchLoop onePageCatalog (1 / 2) ''rainfall'' None 10 [] 0 0 0
      = Some (Inr ([exampleDataset ''Rainfall'' ''Monthly rainfall by district'',
                    exampleDataset ''Crops'' ''Crop yield by state''], 2), 1)"
    by (subst searchLoop.simps)
       (simp add: onePageCatalog_def orNat_def scoreOf_def exampleDataset_def Let_def)
  have q: "sanitizeQuery ''rainfall'' = ''rainfall''"
    by (simp add: sanitizeQuery_def trim_def isSpace_def isWord_def isDigit_def isUpper_def
        isLower_def)
  have run: "search onePageCatalog (1 / 2) (\<lambda>s. Some s) (Some ''rainfall'') noFilters 10 0
     = Some (searchFailed (ReferenceError ''searchResult is not defined'') (Some ''rainfall'')
               noFilters, 1)"
    by (simp add: search_def q truthyStr_def orStr_def hasKeys_def noFilters_def loop Let_def)
  from search_never_succeeds [OF run] run show ?thesis
    by (simp add: searchFailed_def orStr_def)
qed

section \<open>Properties of the acquisition\<close>

lemma acquireResource_metadata:
  assumes "acquireResource acq dl parse fb r includeData optMax w = (Inr resourceData, w')"
  shows "oc_metadata resourceData = formatResourceMetadata fb r"
  using assms
  by (auto simp: acquireResource_def notAcquired_def Let_def
      split: formatField.splits if_splits prod.splits sum.splits)

lemma acquireLoop_metadata:
  assumes "i \<le> limit" and "limit \<le> length resources"
  shows "map oc_metadata (fst (acquireLoop acq dl parse fb options resources limit i processed w))
     = map oc_metadata processed
       @ map (formatResourceMetadata fb) (drop i (take limit resources))"
  using assms
proof (induction "limit - i" arbitrary: i processed w)
  case 0
  then have "i = limit" by simp
  then show ?case using "0.prems" by (subst acquireLoop.simps) simp
next
  case (Suc n)
  then have less: "i < limit" and inRange: "i < length resources" by simp_all
  have n: "n = limit - (i + 1)" using Suc.hyps(2) by simp
  have next_le: "i + 1 \<le> limit" using less by simp
  have split: "drop i (take limit resources) = resources ! i # drop (i + 1) (take limit resources)"
    using less inRange by (simp add: Cons_nth_drop_Suc [symmetric])
  obtain answer w' where step:
    "acquireResource acq dl parse fb (resources ! i) (ao_includeData options \<noteq> Some False)
       (Some (orNat (ao_maxFileSize options) (maxFileSize acq))) w = (answer, w')"
    by (cases "acquireResource acq dl parse fb (resources ! i) (ao_includeData options \<noteq> Some False)
       (Some (orNat (ao_maxFileSize options) (maxFileSize acq))) w")
  show ?case
  proof (cases answer)
    case (Inr resourceData)
    with step have meta: "oc_metadata resourceData = formatResourceMetadata fb (resources ! i)"
      by (simp add: acquireResource_metadata)
    show ?thesis
      using Suc.hyps(1) [OF n next_le Suc.prems(2), of "processed @ [resourceData]" w'] less
      by (subst acquireLoop.simps) (simp add: step Inr meta split Let_def)
  next
    case (Inl err)
    show ?thesis
      using Suc.hyps(1) [OF n next_le Suc.prems(2), of _ w'] less
      by (subst acquireLoop.simps) (simp add: step Inl split Let_def)
  qed
qed

text \<open>
  Claim C9, amended. When the descriptor is fetched, acquireDataset returns one outcome
  per selected resource, in the declared order of the resources, whatever happens to the
  single resources (an outcome that records an error is an outcome). The number of
  outcomes is the minimum of the limit and the number of resources, where the limit is
  the requested one when it is at least 1, and the configured limit of the engine (3 when
  none is configured) when the requested one is 0 or absent.
\<close>

theorem acquireDataset_outcomes_in_order:
  assumes "packageShow datasetId w = (Inr (Some d), w')"
    and "(case ds_resources d of None \<Rightarrow> [] | Some rs \<Rightarrow> rs) = resources"
  shows "\<exists>summary processed w''.
           acquireDataset acq packageShow dl parse fb now datasetId options w
             = (Acquired summary processed (length processed) now, w'')
           \<and> length processed
               = min (orNat (ao_resourceLimit options) (resourceLimit acq)) (length resources)
           \<and> map oc_metadata processed
               = map (formatResourceMetadata fb)
                   (take (min (orNat (ao_resourceLimit options) (resourceLimit acq))
                            (length resources)) resources)"
proof -
  define limit where "limit = min (orNat (ao_resourceLimit options) (resourceLimit acq)) (length resources)"
  obtain processed w'' where loop:
    "acquireLoop acq dl parse fb options resources limit 0 [] w' = (processed, w'')"
    by (cases "acquireLoop acq dl parse fb options resources limit 0 [] w'")
  have "limit \<le> length resources" by (simp add: limit_def)
  from acquireLoop_metadata [OF _ this, of 0 acq dl parse fb options "[]" w']
  have meta: "map oc_metadata processed = map (formatResourceMetadata fb) (take limit resources)"
    by (simp add: loop)
  then have "length (map oc_metadata processed) = length (take limit resources)" by simp
  then have len: "length processed = limit" by (simp add: limit_def)
  show ?thesis
    using assms loop meta len
    by (simp add: acquireDataset_def Let_def limit_def [symmetric])
qed

lemma catalogShow_good:
  "catalogShow ''good-id'' w = (Inr (Some goodDataset), w)"
  "(case ds_resources goodDataset of None \<Rightarrow> [] | Some rs \<Rightarrow> rs) = fiveResources"
  by (simp_all add: catalogShow_def goodDataset_def)

text \<open>
  The example of the specification: the limit 2 on a dataset with five resources gives
  the outcomes of the first two resources.
\<close>

theorem acquireDataset_outcomes_in_order_witness:
  "catalogShow ''good-id'' [] = (Inr (Some goodDataset), [])
   \<and> (case ds_resources goodDataset of None \<Rightarrow> [] | Some rs \<Rightarrow> rs) = fiveResources
   \<and> (\<exists>summary processed w''.
         acquireDataset (newDataAcquisition None None) catalogShow loggingDownload
           (\<lambda>data format. data) (\<lambda>n. ''?'') ''2024-01-01T00:00:00.000Z'' ''good-id''
           (limitOptions 2) []
           = (Acquired summary processed (length processed) ''2024-01-01T00:00:00.000Z'', w'')
         \<and> length processed = 2
         \<and> map oc_metadata processed
             = map (formatResourceMetadata (\<lambda>n. ''?'')) (take 2 fiveResources))"
proof -
  have five: "length fiveResources = 5" by (simp add: fiveResources_def)
  from acquireDataset_outcomes_in_order
      [where packageShow = catalogShow and datasetId = "''good-id''" and w = "[]" and w' = "[]"
         and d = goodDataset and resources = fiveResources
         and acq = "newDataAcquisition None None" and dl = loggingDownload
         and parse = "\<lambda>data format. data" and fb = "\<lambda>n. ''?''"
         and now = "''2024-01-01T00:00:00.000Z''" and options = "limitOptions 2",
       OF catalogShow_good]
  show ?thesis
    by (simp add: catalogShow_good five limitOptions_def orNat_def)
qed

text \<open>
  Claim C9, as stated, fails for the limit 0: on a dataset with five resources the engine
  returns three outcomes, not \<open>min 0 5 = 0\<close>.
\<close>

theorem acquireDataset_limit_zero_uses_default:
  "length (aq_resources (fst (acquireDataset (newDataAcquisition None None) catalogShow
       loggingDownload (\<lambda>data format. data) (\<lambda>n. ''?'') ''2024-01-01T00:00:00.000Z''
       ''good-id'' (limitOptions 0) []))) = 3
   \<and> min 0 (length fiveResources) = 0"
proof -
  let ?acq = "newDataAcquisition None None"
  have five: "length fiveResources = 5" by (simp add: fiveResources_def)
  obtain processed w'' where loop:
    "acquireLoop ?acq loggingDownload (\<lambda>data format. data) (\<lambda>n. ''?'') (limitOptions 0)
       fiveResources 3 0 [] [] = (processed, w'')"
    by (cases "acquireLoop ?acq loggingDownload (\<lambda>data format. data) (\<lambda>n. ''?'') (limitOptions 0)
       fiveResources 3 0 [] ([] :: string list)")
  have "map oc_metadata processed
      = map (formatResourceMetadata (\<lambda>n. ''?'')) (take 3 fiveResources)"
    using acquireLoop_metadata [of 0 3 fiveResources ?acq loggingDownload "\<lambda>data format. data"
        "\<lambda>n. ''?''" "limitOptions 0" "[]" "[]"]
    by (simp add: five loop)
  then have "length (map oc_metadata processed) = length (take 3 fiveResources)" by simp
  then have len: "length processed = 3" by (simp add: five)
  have limit: "orNat (ao_resourceLimit (limitOptions 0)) (resourceLimit ?acq) = 3"
    by (simp add: limitOptions_def orNat_def newDataAcquisition_def)
  have "fst (acquireDataset ?acq catalogShow loggingDownload (\<lambda>data format. data) (\<lambda>n. ''?'')
       ''2024-01-01T00:00:00.000Z'' ''good-id'' (limitOptions 0) [])
     = Acquired
        \<lparr>sum_id = Some ''d1'', sum_title = Some ''Rainfall'', sum_description = None,
           sum_organization = ''Unknown'', sum_license = ''Not specified'', sum_tags = [],
           sum_metadata_created = None, sum_metadata_modified = None,
           sum_url = ''https://data.gov.in/resource/undefined''\<rparr>
        processed (length processed) ''2024-01-01T00:00:00.000Z''"
    using limit by (simp add: acquireDataset_def catalogShow_def goodDataset_def exampleDataset_def
        five loop orOpt_def truthyStr_def orStr_def templateStr_def Let_def)
  then show ?thesis using len by simp
qed

text \<open>
  Claim C2 does not hold of the code. acquireResource asks the client for the bytes
  without a call of validateResourceDownload: for the resource below the check answers
  \<open>allowed = false\<close>, and the acquisition downloads from its address all the same.
\<close>

theorem acquireResource_downloads_without_url_check:
  "dv_allowed (validateResourceDownload parseMetadataURL (\<lambda>n. ''?'') metadataResource) = False
   \<and> (case acquireResource (newDataAcquisition None None) loggingDownload
              (\<lambda>data format. data) (\<lambda>n. ''?'') metadataResource True None [] of
         (Inr resourceData, requested) \<Rightarrow>
           oc_acquired resourceData
           \<and> requested = [''http://169.254.169.254/latest/meta-data/iam.csv'']
       | (Inl err, requested) \<Rightarrow> False)"
proof -
  have blocked:
    "dv_allowed (validateResourceDownload parseMetadataURL (\<lambda>n. ''?'') metadataResource) = False"
    by (simp add: validateResourceDownload_def validateURL_def parseMetadataURL_def
        metadataResource_def exampleResource_def truthyStr_def orStr_def Let_def)
  have lower: "toLowerCase ''CSV'' = ''csv''" by (simp add: toLowerCase_def toLowerChar_def)
  have fetched:
    "acquireResource (newDataAcquisition None None) loggingDownload (\<lambda>data format. data)
       (\<lambda>n. ''?'') metadataResource True None []
     = (Inr \<lparr>oc_metadata = formatResourceMetadata (\<lambda>n. ''?'') metadataResource,
             oc_acquired = True, oc_reason = None, oc_error = None,
             oc_dataSize = Some ''?'', oc_data = Some ''a,b''\<rparr>,
        [''http://169.254.169.254/latest/meta-data/iam.csv''])"
    by (simp add: acquireResource_def metadataResource_def exampleResource_def lower
        newDataAcquisition_def loggingDownload_def truthyStr_def orStr_def orNat_def Let_def)
  show ?thesis using blocked by (simp add: fetched)
qed

end
